theory Spec2Isabelle
  imports Main "HOL-Library.Word" "HOL-Library.Log_Nat"
begin

unbundle bit_operations_syntax

section \<open>Python values, exceptions and outcomes\<close>

text \<open>
  The driver \<^verbatim>\<open>ODO_sensor_lib/core.py\<close> is one class, \<^verbatim>\<open>YSIOdoRtuSensor\<close>, whose
  methods exchange 16-bit registers with a sensor through a Modbus client and convert
  them with the payload builder and decoder of the Modbus library.

  A register is a \<open>16 word\<close>, a byte an \<open>8 word\<close>. A Python float that the driver
  packs or unpacks with the \<^verbatim>\<open>f\<close> format is represented by an IEEE-754 binary32 datum:
  \<open>PyFloat w\<close> is the float whose value is the datum with bit pattern \<open>w\<close>, and
  \<open>PyFloatHuge\<close> is a finite float beyond the binary32 range, which the format refuses.
  The format converts between the datum and Python's binary64 float; that conversion is
  not the identity on signalling NaNs, and is modelled below (\<open>quiet_nan\<close>).
\<close>

type_synonym byte = "8 word"
type_synonym reg = "16 word"

datatype pyval =
    PyNone
  | PyBool bool
  | PyInt int
  | PyFloat "32 word"
  | PyFloatHuge
  | PyBytes "byte list"
  | PyStr string
  | PyDict "(string \<times> pyval) list"

datatype exn =
    ValueError string
  | KeyError string
  | AssertionError string
  | ModbusException
  | StructError
  | OverflowError
  | PyException string

datatype 'a outcome = Returned 'a | Raised exn

fun ok :: "'a outcome \<Rightarrow> bool" where
  "ok (Returned _) = True"
| "ok (Raised _) = False"

text \<open>\<^verbatim>\<open>except Exception: return v\<close> and \<^verbatim>\<open>except ModbusException: return v\<close>.\<close>

fun except_Exception :: "pyval outcome \<Rightarrow> pyval \<Rightarrow> pyval outcome" where
  "except_Exception (Returned x) v = Returned x"
| "except_Exception (Raised e) v = Returned v"

fun except_ModbusException :: "pyval outcome \<Rightarrow> pyval \<Rightarrow> pyval outcome" where
  "except_ModbusException (Returned x) v = Returned x"
| "except_ModbusException (Raised ModbusException) v = Returned v"
| "except_ModbusException (Raised e) v = Raised e"

text \<open>Sequencing: a raised exception skips the statements that follow.\<close>

fun then_do :: "'a outcome \<Rightarrow> ('a \<Rightarrow> 'b outcome) \<Rightarrow> 'b outcome" where
  "then_do (Returned x) k = k x"
| "then_do (Raised e) k = Raised e"

section \<open>The struct formats the payload classes use\<close>

text \<open>Big-endian packing of a register (\<^verbatim>\<open>"!H"\<close>) and of a 32-bit pattern (\<^verbatim>\<open>"!I"\<close>, \<^verbatim>\<open>"!f"\<close>).\<close>

definition pack_H :: "reg \<Rightarrow> byte list" where
  "pack_H r = [ucast (drop_bit 8 r), ucast r]"

definition pack_I :: "32 word \<Rightarrow> byte list" where
  "pack_I w = [ucast (drop_bit 24 w), ucast (drop_bit 16 w), ucast (drop_bit 8 w), ucast w]"

text \<open>Unpacking raises \<^verbatim>\<open>struct.error\<close> unless the buffer has exactly the format's size.\<close>

fun unpack_B :: "byte list \<Rightarrow> byte outcome" where
  "unpack_B [a] = Returned a"
| "unpack_B _ = Raised StructError"

fun unpack_H :: "byte list \<Rightarrow> reg outcome" where
  "unpack_H [a, b] = Returned (push_bit 8 (ucast a) OR ucast b)"
| "unpack_H _ = Raised StructError"

fun unpack_I :: "byte list \<Rightarrow> 32 word outcome" where
  "unpack_I [a, b, c, d] =
     Returned (push_bit 24 (ucast a) OR push_bit 16 (ucast b) OR push_bit 8 (ucast c) OR ucast d)"
| "unpack_I _ = Raised StructError"

text \<open>
  The \<^verbatim>\<open>f\<close> format passes through Python's float, a binary64. Widening a binary32 datum
  and narrowing it again gives the same bits for zeros, subnormals, normals, infinities
  and quiet NaNs, payload included. A signalling NaN (exponent all ones, mantissa not zero,
  top mantissa bit clear) comes out quiet: the conversion sets the top mantissa bit
  \<open>0x00400000\<close> and keeps the sign and the other payload bits. Unpacking and packing
  both convert.
\<close>

definition is_nan :: "32 word \<Rightarrow> bool" where
  "is_nan w \<longleftrightarrow> w AND 0x7F800000 = 0x7F800000 \<and> w AND 0x007FFFFF \<noteq> 0"

definition signalling_nan :: "32 word \<Rightarrow> bool" where
  "signalling_nan w \<longleftrightarrow> is_nan w \<and> w AND 0x00400000 = 0"

definition quiet_nan :: "32 word \<Rightarrow> 32 word" where
  "quiet_nan w = (if is_nan w then w OR 0x00400000 else w)"

text \<open>
  Packing a caller's value. An integer format takes an \<^verbatim>\<open>int\<close> (or \<^verbatim>\<open>bool\<close>) in
  range and raises \<^verbatim>\<open>struct.error\<close> otherwise. The float format takes a float, with
  \<^verbatim>\<open>OverflowError\<close> beyond the binary32 range, or an integer, which Python first
  converts to a float (binary64, round half to even) and then to binary32 (round half to
  even), with \<^verbatim>\<open>struct.error\<close> when either step overflows, that is when the rounded
  magnitude needs more than 1024 or 128 bits. \<open>floorlog 2 n\<close> is the bit length of \<open>n\<close>.
\<close>

definition round_to_bits :: "nat \<Rightarrow> nat \<Rightarrow> nat" where
  "round_to_bits p n =
     (let k = floorlog 2 n in
      if k \<le> p then n
      else let sh = k - p; q = n div 2 ^ sh; r = n mod 2 ^ sh; h = 2 ^ (sh - 1)
           in (if h < r \<or> (r = h \<and> odd q) then q + 1 else q) * 2 ^ sh)"

definition f32_of_int :: "int \<Rightarrow> 32 word option" where
  "f32_of_int i =
     (let d = round_to_bits 53 (nat \<bar>i\<bar>) in
      if 1024 < floorlog 2 d then None
      else let m = round_to_bits 24 d in
        if 128 < floorlog 2 m then None
        else if m = 0 then Some 0
        else let k = floorlog 2 m - 1;
                 frac = (if 23 \<le> k then m div 2 ^ (k - 23) else m * 2 ^ (23 - k)) - 2 ^ 23
             in Some ((if i < 0 then push_bit 31 1 else 0)
                      OR push_bit 23 (word_of_nat (k + 127)) OR word_of_nat frac))"

fun int_of_pyval :: "pyval \<Rightarrow> int option" where
  "int_of_pyval (PyInt i) = Some i"
| "int_of_pyval (PyBool b) = Some (if b then 1 else 0)"
| "int_of_pyval _ = None"

definition struct_pack_H :: "pyval \<Rightarrow> byte list outcome" where
  "struct_pack_H v =
     (case int_of_pyval v of
        None \<Rightarrow> Raised StructError
      | Some i \<Rightarrow> if 0 \<le> i \<and> i < 2 ^ 16 then Returned (pack_H (word_of_int i))
                  else Raised StructError)"

definition struct_pack_I :: "pyval \<Rightarrow> byte list outcome" where
  "struct_pack_I v =
     (case int_of_pyval v of
        None \<Rightarrow> Raised StructError
      | Some i \<Rightarrow> if 0 \<le> i \<and> i < 2 ^ 32 then Returned (pack_I (word_of_int i))
                  else Raised StructError)"

definition struct_pack_f :: "pyval \<Rightarrow> byte list outcome" where
  "struct_pack_f v =
     (case v of
        PyFloat w \<Rightarrow> Returned (pack_I (quiet_nan w))
      | PyFloatHuge \<Rightarrow> Raised OverflowError
      | _ \<Rightarrow> (case int_of_pyval v of
                None \<Rightarrow> Raised StructError
              | Some i \<Rightarrow> (case f32_of_int i of
                            None \<Rightarrow> Raised StructError
                          | Some w \<Rightarrow> Returned (pack_I w))))"

section \<open>BinaryPayloadDecoder and BinaryPayloadBuilder\<close>

text \<open>
  The driver builds every decoder and builder with \<^verbatim>\<open>byteorder=Endian.BIG\<close> and with
  \<^verbatim>\<open>wordorder=Endian.BIG\<close>, given or by default; the classes are modelled at that
  setting. \<^verbatim>\<open>fromRegisters\<close> packs each register with \<^verbatim>\<open>"!H"\<close> into one byte buffer
  and starts the read pointer at 0. Each decode method advances the pointer by its size
  and unpacks the bytes it passed over; \<^verbatim>\<open>decode_string\<close> returns them as they are.
\<close>

record decoder =
  payload :: "byte list"
  pointer :: nat

definition fromRegisters :: "reg list \<Rightarrow> decoder" where
  "fromRegisters registers = \<lparr>payload = concat (map pack_H registers), pointer = 0\<rparr>"

definition advance :: "decoder \<Rightarrow> nat \<Rightarrow> byte list \<times> decoder" where
  "advance d n =
     (take n (drop (pointer d) (payload d)), d\<lparr>pointer := pointer d + n\<rparr>)"

definition decode_8bit_uint :: "decoder \<Rightarrow> int outcome \<times> decoder" where
  "decode_8bit_uint d =
     (case advance d 1 of (handle, d') \<Rightarrow>
        (case unpack_B handle of Raised e \<Rightarrow> Raised e | Returned b \<Rightarrow> Returned (uint b), d'))"

definition decode_16bit_uint :: "decoder \<Rightarrow> pyval outcome \<times> decoder" where
  "decode_16bit_uint d =
     (case advance d 2 of (handle, d') \<Rightarrow>
        (case unpack_H handle of Raised e \<Rightarrow> Raised e | Returned r \<Rightarrow> Returned (PyInt (uint r)), d'))"

definition decode_32bit_uint :: "decoder \<Rightarrow> pyval outcome \<times> decoder" where
  "decode_32bit_uint d =
     (case advance d 4 of (handle, d') \<Rightarrow>
        (case unpack_I handle of Raised e \<Rightarrow> Raised e | Returned w \<Rightarrow> Returned (PyInt (uint w)), d'))"

definition decode_32bit_float :: "decoder \<Rightarrow> pyval outcome \<times> decoder" where
  "decode_32bit_float d =
     (case advance d 4 of (handle, d') \<Rightarrow>
        (case unpack_I handle of
           Raised e \<Rightarrow> Raised e
         | Returned w \<Rightarrow> Returned (PyFloat (quiet_nan w)), d'))"

definition decode_string :: "decoder \<Rightarrow> nat \<Rightarrow> pyval outcome \<times> decoder" where
  "decode_string d n = (case advance d n of (handle, d') \<Rightarrow> (Returned (PyBytes handle), d'))"

text \<open>
  The builder appends the packed bytes of each value. \<^verbatim>\<open>build()\<close> cuts the buffer into
  two-byte items (an odd buffer is padded with one NUL) and \<^verbatim>\<open>to_registers()\<close> reads each
  item as a big-endian register; a write with \<^verbatim>\<open>skip_encode=True\<close> sends the items of
  \<^verbatim>\<open>build()\<close> verbatim, which are the same registers on the wire.
\<close>

fun to_registers :: "byte list \<Rightarrow> reg list" where
  "to_registers (a # b # bs) = (push_bit 8 (ucast a) OR ucast b) # to_registers bs"
| "to_registers [a] = [push_bit 8 (ucast a)]"
| "to_registers [] = []"

section \<open>The session and the Modbus client\<close>

text \<open>
  The client is the external transport. The model records every call the driver makes on
  it, in order, and takes the client's answer to a call as an argument of the operation
  that makes it: the call raises, or returns a response whose \<^verbatim>\<open>isError()\<close> is true, or a
  response with registers.
\<close>

datatype request =
    Connect
  | Close
  | ReadHoldingRegisters nat nat nat
  | ReadInputRegisters nat nat nat
  | WriteRegister nat int nat
  | WriteRegisters nat "reg list" nat

datatype response = Raises exn | ErrorResponse | Registers "reg list"

datatype connect_result = ConnectRaises exn | ConnectReturns bool

record session =
  unit_id :: nat
  connected :: bool
  link_open :: bool
  calls :: "request list"

definition init :: "nat \<Rightarrow> session" where
  "init uid = \<lparr>unit_id = uid, connected = False, link_open = False, calls = []\<rparr>"

definition call :: "session \<Rightarrow> request \<Rightarrow> session" where
  "call s req = s\<lparr>calls := calls s @ [req]\<rparr>"

definition connect :: "session \<Rightarrow> connect_result \<Rightarrow> session \<times> pyval outcome" where
  "connect s c =
     (let s' = call s Connect in
      case c of
        ConnectReturns b \<Rightarrow> (s'\<lparr>connected := b, link_open := b\<rparr>, Returned (PyBool b))
      | ConnectRaises ModbusException \<Rightarrow> (s'\<lparr>connected := False\<rparr>, Returned (PyBool False))
      | ConnectRaises e \<Rightarrow> (s', Raised e))"

definition disconnect :: "session \<Rightarrow> session" where
  "disconnect s = (call s Close)\<lparr>link_open := False\<rparr>"

text \<open>
  The shape every operation gives to the client's answer: the call may raise; otherwise
  \<^verbatim>\<open>if response.isError(): raise err\<close>, then the continuation on the registers.
\<close>

definition checked :: "response \<Rightarrow> exn \<Rightarrow> (reg list \<Rightarrow> pyval outcome) \<Rightarrow> pyval outcome" where
  "checked r err k =
     (case r of Raises e \<Rightarrow> Raised e | ErrorResponse \<Rightarrow> Raised err | Registers registers \<Rightarrow> k registers)"

text \<open>The shape of an operation that never looks at the response it got.\<close>

definition ignoring :: "response \<Rightarrow> pyval \<Rightarrow> pyval outcome" where
  "ignoring r v = (case r of Raises e \<Rightarrow> Raised e | _ \<Rightarrow> Returned v)"

section \<open>Baud rate and parity\<close>

definition baud_rates :: "(int \<times> int) list" where
  "baud_rates = [(9600, 0x00), (19200, 0x01), (38400, 0x02), (57600, 0x03), (115200, 0x04)]"

definition parities :: "(string \<times> int) list" where
  "parities = [(''none'', 0x00), (''odd'', 0x01), (''even'', 0x02)]"

text \<open>\<^verbatim>\<open>list(d.keys())[list(d.values()).index(v)]\<close>: the first key with that value, or \<^verbatim>\<open>ValueError\<close>.\<close>

fun key_of_value :: "('k \<times> int) list \<Rightarrow> int \<Rightarrow> 'k outcome" where
  "key_of_value [] v = Raised (ValueError ''not in list'')"
| "key_of_value ((k, c) # kcs) v = (if c = v then Returned k else key_of_value kcs v)"

definition decode_baud_rate_and_parity :: "reg list \<Rightarrow> pyval outcome" where
  "decode_baud_rate_and_parity registers =
     (case decode_8bit_uint (fromRegisters registers) of
        (parity, d) \<Rightarrow>
          then_do parity (\<lambda>p.
          then_do (fst (decode_8bit_uint d)) (\<lambda>b.
          then_do (key_of_value parities p) (\<lambda>pk.
          then_do (key_of_value baud_rates b) (\<lambda>bk.
          Returned (PyDict [(''parity'', PyStr pk), (''baud_rate'', PyInt bk)]))))))"

definition get_baud_rate_and_parity :: "session \<Rightarrow> response \<Rightarrow> session \<times> pyval outcome" where
  "get_baud_rate_and_parity s r =
     (call s (ReadHoldingRegisters 0x0001 1 (unit_id s)),
      except_Exception
        (checked r (ValueError ''Error reading device information registers'')
           decode_baud_rate_and_parity)
        PyNone)"

definition combined_value :: "int \<Rightarrow> string \<Rightarrow> int" where
  "combined_value baud_rate parity =
     push_bit 8 (the (map_of parities parity)) OR the (map_of baud_rates baud_rate)"

definition set_baud_rate_and_parity ::
  "session \<Rightarrow> int \<Rightarrow> string \<Rightarrow> response \<Rightarrow> session \<times> pyval outcome" where
  "set_baud_rate_and_parity s baud_rate parity r =
     (if map_of baud_rates baud_rate = None \<or> map_of parities parity = None
      then (s, Raised (ValueError ''Invalid baud rate or parity.''))
      else (call s (WriteRegister 0x0001 (combined_value baud_rate parity) (unit_id s)),
            except_ModbusException (ignoring r (PyBool True)) (PyBool False)))"

section \<open>Reading a block and decoding its fields\<close>

datatype fmt = U16 | U32 | F32 | Str nat

fun decode :: "fmt \<Rightarrow> decoder \<Rightarrow> pyval outcome \<times> decoder" where
  "decode U16 d = decode_16bit_uint d"
| "decode U32 d = decode_32bit_uint d"
| "decode F32 d = decode_32bit_float d"
| "decode (Str n) d = decode_string d n"

text \<open>The Python slice \<^verbatim>\<open>xs[a:b]\<close> for indices that are not negative.\<close>

definition slice :: "'a list \<Rightarrow> nat \<Rightarrow> nat \<Rightarrow> 'a list" where
  "slice xs a b = take (b - a) (drop a xs)"

text \<open>
  \<^verbatim>\<open>d[name] = BinaryPayloadDecoder.fromRegisters(response.registers[a:b], ...).decode_...()\<close>,
  one assignment per field, each with a decoder of its own on its own slice.
\<close>

fun decode_slices :: "reg list \<Rightarrow> (string \<times> nat \<times> nat \<times> fmt) list \<Rightarrow> (string \<times> pyval) list outcome" where
  "decode_slices registers [] = Returned []"
| "decode_slices registers ((name, a, b, f) # fs) =
     then_do (fst (decode f (fromRegisters (slice registers a b))))
       (\<lambda>v. then_do (decode_slices registers fs) (\<lambda>kvs. Returned ((name, v) # kvs)))"

text \<open>A dictionary display whose values come from one decoder, read in order.\<close>

fun decode_seq :: "(string \<times> fmt) list \<Rightarrow> decoder \<Rightarrow> (string \<times> pyval) list outcome" where
  "decode_seq [] d = Returned []"
| "decode_seq ((name, f) # fs) d =
     (case decode f d of
        (Raised e, _) \<Rightarrow> Raised e
      | (Returned v, d') \<Rightarrow> then_do (decode_seq fs d') (\<lambda>kvs. Returned ((name, v) # kvs)))"

definition as_dict :: "(string \<times> pyval) list outcome \<Rightarrow> pyval outcome" where
  "as_dict r = then_do r (\<lambda>kvs. Returned (PyDict kvs))"

definition device_info_fields :: "(string \<times> nat \<times> nat \<times> fmt) list" where
  "device_info_fields =
     [(''product_id'', 0, 1, U16),
      (''model_id'', 1, 2, U16),
      (''submodel_id'', 2, 3, U16),
      (''firmware_major_revision'', 3, 4, U16),
      (''firmware_minor_revision'', 4, 5, U16),
      (''firmware_subminor_revision'', 5, 6, U16),
      (''hardware_major_revision'', 6, 7, U16),
      (''hardware_minor_revision'', 7, 8, U16),
      (''manufacturing_serial_number'', 8, 13, Str 10),
      (''printed_circuit_board_serial_number'', 13, 17, Str 8)]"

definition get_device_info :: "session \<Rightarrow> response \<Rightarrow> session \<times> pyval outcome" where
  "get_device_info s r =
     (call s (ReadHoldingRegisters 0x1000 17 (unit_id s)),
      except_Exception
        (checked r (ValueError ''Error reading device information registers'')
           (\<lambda>registers. as_dict (decode_slices registers device_info_fields)))
        PyNone)"

definition live_snapshot_fields :: "(string \<times> nat \<times> nat \<times> fmt) list" where
  "live_snapshot_fields =
     [(''odo_saturation'', 0, 2, F32),
      (''odo_concentration'', 2, 4, F32),
      (''odo_local_barometer_compensated'', 4, 8, F32),
      (''temperature'', 8, 10, F32),
      (''ref_temperature'', 10, 12, F32),
      (''time_since_boot'', 12, 14, U32),
      (''conductivity'', 14, 16, F32),
      (''specific_conductivity'', 16, 18, F32),
      (''salinity'', 18, 20, F32),
      (''conductivity _nLF'', 20, 22, F32),
      (''total_dissolved_solids'', 22, 24, F32)]"

definition get_data :: "session \<Rightarrow> response \<Rightarrow> session \<times> pyval outcome" where
  "get_data s r =
     (call s (ReadInputRegisters 0x0000 24 (unit_id s)),
      except_Exception
        (checked r (ValueError ''Error reading device information registers'')
           (\<lambda>registers. as_dict (decode_slices registers live_snapshot_fields)))
        PyNone)"

definition get_cap_serial :: "session \<Rightarrow> response \<Rightarrow> session \<times> pyval outcome" where
  "get_cap_serial s r =
     (call s (ReadHoldingRegisters 0x120 5 (unit_id s)),
      except_Exception
        (checked r (ValueError ''Error reading device information registers'')
           (\<lambda>registers. fst (decode_string (fromRegisters registers) 10)))
        PyNone)"

definition calibration_fields :: "(string \<times> nat \<times> nat \<times> fmt) list" where
  "calibration_fields = [(''last_calibration_time'', 0, 2, U32), (''qc_score'', 2, 3, U16)]"

definition get_odo_last_calibration_time_and_qc_score ::
  "session \<Rightarrow> response \<Rightarrow> session \<times> pyval outcome" where
  "get_odo_last_calibration_time_and_qc_score s r =
     (call s (ReadHoldingRegisters 0x0210 3 (unit_id s)),
      except_Exception
        (checked r (ValueError ''Error reading device information registers'')
           (\<lambda>registers. as_dict (decode_slices registers calibration_fields)))
        PyNone)"

definition get_conductivity_last_calibration_time_and_qc_score ::
  "session \<Rightarrow> response \<Rightarrow> session \<times> pyval outcome" where
  "get_conductivity_last_calibration_time_and_qc_score s r =
     (call s (ReadHoldingRegisters 0x0310 3 (unit_id s)),
      except_Exception
        (checked r (ValueError ''Error reading device information registers'')
           (\<lambda>registers. as_dict (decode_slices registers calibration_fields)))
        PyNone)"

definition cap_coefficient_fields :: "(string \<times> fmt) list" where
  "cap_coefficient_fields =
     [(''K1'', F32), (''K2'', F32), (''K3'', F32), (''K4'', F32), (''K5'', F32), (''K6'', F32),
      (''K7'', F32), (''KC'', U16), (''Cap Replacement Time'', U32)]"

definition get_odo_cap_coefficients :: "session \<Rightarrow> response \<Rightarrow> session \<times> pyval outcome" where
  "get_odo_cap_coefficients s r =
     (call s (ReadHoldingRegisters 0x0100 17 (unit_id s)),
      except_Exception
        (checked r (ValueError ''Error reading ODO cap coefficients'')
           (\<lambda>registers. as_dict (decode_seq cap_coefficient_fields (fromRegisters registers))))
        PyNone)"

definition read_f32 :: "session \<Rightarrow> nat \<Rightarrow> string \<Rightarrow> response \<Rightarrow> session \<times> pyval outcome" where
  "read_f32 s address msg r =
     (call s (ReadHoldingRegisters address 2 (unit_id s)),
      checked r (PyException msg) (\<lambda>registers. fst (decode_32bit_float (fromRegisters registers))))"

definition get_user_tds_coefficient :: "session \<Rightarrow> response \<Rightarrow> session \<times> pyval outcome" where
  "get_user_tds_coefficient s r = read_f32 s 0x0500 ''Failed to read TDS coefficient'' r"

definition get_user_temperature_reference :: "session \<Rightarrow> response \<Rightarrow> session \<times> pyval outcome" where
  "get_user_temperature_reference s r = read_f32 s 0x0502 ''Failed to read temperature reference'' r"

definition get_user_temperature_coefficient :: "session \<Rightarrow> response \<Rightarrow> session \<times> pyval outcome" where
  "get_user_temperature_coefficient s r =
     read_f32 s 0x0504 ''Failed to read temperature coefficient'' r"

section \<open>Building a payload and writing it\<close>

definition add_16bit_uint :: "byte list \<Rightarrow> pyval \<Rightarrow> byte list outcome" where
  "add_16bit_uint b v = then_do (struct_pack_H v) (\<lambda>bs. Returned (b @ bs))"

definition add_32bit_uint :: "byte list \<Rightarrow> pyval \<Rightarrow> byte list outcome" where
  "add_32bit_uint b v = then_do (struct_pack_I v) (\<lambda>bs. Returned (b @ bs))"

definition add_32bit_float :: "byte list \<Rightarrow> pyval \<Rightarrow> byte list outcome" where
  "add_32bit_float b v = then_do (struct_pack_f v) (\<lambda>bs. Returned (b @ bs))"

text \<open>
  A block write: the payload is built first, outside any \<^verbatim>\<open>try\<close>, so an exception of
  the builder leaves the session as it was; then one \<^verbatim>\<open>write_registers\<close> call, whose
  answer the operation turns into the result given as \<open>result\<close>.
\<close>

definition write_payload ::
  "session \<Rightarrow> byte list outcome \<Rightarrow> nat \<Rightarrow> pyval outcome \<Rightarrow> session \<times> pyval outcome" where
  "write_payload s b address result =
     (case b of
        Raised e \<Rightarrow> (s, Raised e)
      | Returned bs \<Rightarrow>
          (call s (WriteRegisters address (to_registers bs) (unit_id s)), result))"

definition time_and_value :: "pyval \<Rightarrow> pyval \<Rightarrow> byte list outcome" where
  "time_and_value calibration_time calibration_value =
     then_do (add_32bit_uint [] calibration_time) (\<lambda>b. add_32bit_float b calibration_value)"

definition odo_factory_reset :: "session \<Rightarrow> response \<Rightarrow> session \<times> pyval outcome" where
  "odo_factory_reset s r =
     (call s (WriteRegister 0x0200 0x0001 (unit_id s)),
      except_ModbusException
        (case r of
           Raises e \<Rightarrow> Raised e
         | ErrorResponse \<Rightarrow> Returned (PyBool False)
         | Registers _ \<Rightarrow> Returned (PyBool True))
        (PyBool False))"

definition conductivity_factory_reset :: "session \<Rightarrow> response \<Rightarrow> session \<times> pyval outcome" where
  "conductivity_factory_reset s r =
     (call s (WriteRegister 0x0300 0x0001 (unit_id s)),
      except_ModbusException
        (case r of
           Raises e \<Rightarrow> Raised e
         | ErrorResponse \<Rightarrow> Returned (PyBool False)
         | Registers _ \<Rightarrow> Returned (PyBool True))
        (PyBool False))"

definition perform_odo_zero_calibration ::
  "session \<Rightarrow> pyval \<Rightarrow> response \<Rightarrow> session \<times> pyval outcome" where
  "perform_odo_zero_calibration s calibration_time r =
     write_payload s (add_32bit_uint [] calibration_time) 0x0220
       (except_Exception (ignoring r (PyBool True)) (PyBool False))"

definition perform_odo_percent_saturation_calibration ::
  "session \<Rightarrow> pyval \<Rightarrow> pyval \<Rightarrow> response \<Rightarrow> session \<times> pyval outcome" where
  "perform_odo_percent_saturation_calibration s calibration_time barometric_pressure r =
     write_payload s (time_and_value calibration_time barometric_pressure) 0x0230
       (ignoring r PyNone)"

definition perform_odo_mgL_calibration ::
  "session \<Rightarrow> pyval \<Rightarrow> pyval \<Rightarrow> pyval \<Rightarrow> response \<Rightarrow> session \<times> pyval outcome" where
  "perform_odo_mgL_calibration s calibration_time calibration_value calibration_salinity r =
     write_payload s
       (then_do (time_and_value calibration_time calibration_value)
          (\<lambda>b. add_32bit_float b calibration_salinity))
       0x0240 (ignoring r PyNone)"

definition cap_coefficient_keys :: "string list" where
  "cap_coefficient_keys =
     [''K1'', ''K2'', ''K3'', ''K4'', ''K5'', ''K6'', ''K7'', ''KC'', ''Cap Replacement Time'']"

fun add_coefficients :: "(string \<rightharpoonup> pyval) \<Rightarrow> string list \<Rightarrow> byte list \<Rightarrow> byte list outcome" where
  "add_coefficients coefficients [] b = Returned b"
| "add_coefficients coefficients (key # ks) b =
     (case coefficients key of
        None \<Rightarrow> Raised (KeyError key)
      | Some v \<Rightarrow>
          then_do (if key = ''KC'' then add_16bit_uint b v else add_32bit_float b v)
            (add_coefficients coefficients ks))"

definition set_odo_cap_coefficients ::
  "session \<Rightarrow> (string \<rightharpoonup> pyval) \<Rightarrow> response \<Rightarrow> session \<times> pyval outcome" where
  "set_odo_cap_coefficients s coefficients r =
     write_payload s (add_coefficients coefficients cap_coefficient_keys []) 0x0100
       (except_Exception (ignoring r (PyBool True)) (PyBool False))"

definition perform_us_cm_calibration ::
  "session \<Rightarrow> pyval \<Rightarrow> pyval \<Rightarrow> response \<Rightarrow> session \<times> pyval outcome" where
  "perform_us_cm_calibration s calibration_time calibration_value r =
     write_payload s (time_and_value calibration_time calibration_value) 0x0320
       (except_Exception (ignoring r PyNone) PyNone)"

definition perform_salinity_ppt_calibration ::
  "session \<Rightarrow> pyval \<Rightarrow> pyval \<Rightarrow> response \<Rightarrow> session \<times> pyval outcome" where
  "perform_salinity_ppt_calibration s calibration_time calibration_value r =
     write_payload s (time_and_value calibration_time calibration_value) 0x0330
       (except_Exception (ignoring r PyNone) PyNone)"

text \<open>\<^verbatim>\<open>assert self.connect(), "Failed to connect to the sensor"\<close>, then the write.\<close>

definition connect_then_write ::
  "session \<Rightarrow> connect_result \<Rightarrow> byte list outcome \<Rightarrow> nat \<Rightarrow> pyval outcome \<Rightarrow> session \<times> pyval outcome" where
  "connect_then_write s c b address result =
     (case connect s c of
        (s', Raised e) \<Rightarrow> (s', Raised e)
      | (s', Returned v) \<Rightarrow>
          if v = PyBool True then write_payload s' b address result
          else (s', Raised (AssertionError ''Failed to connect to the sensor'')))"

definition perform_specific_conductance_calibration ::
  "session \<Rightarrow> pyval \<Rightarrow> pyval \<Rightarrow> connect_result \<Rightarrow> response \<Rightarrow> session \<times> pyval outcome" where
  "perform_specific_conductance_calibration s calibration_time calibration_value c r =
     connect_then_write s c (time_and_value calibration_time calibration_value) 0x0340
       (checked r (PyException ''Specific conductance calibration failed.'') (\<lambda>_. Returned PyNone))"

definition perform_nlf_conductivity_calibration ::
  "session \<Rightarrow> pyval \<Rightarrow> pyval \<Rightarrow> connect_result \<Rightarrow> response \<Rightarrow> session \<times> pyval outcome" where
  "perform_nlf_conductivity_calibration s calibration_time calibration_value c r =
     connect_then_write s c (time_and_value calibration_time calibration_value) 0x0350
       (checked r (PyException ''nLF conductivity calibration failed.'') (\<lambda>_. Returned PyNone))"

definition set_user_tds_coefficient ::
  "session \<Rightarrow> pyval \<Rightarrow> response \<Rightarrow> session \<times> pyval outcome" where
  "set_user_tds_coefficient s tds_coefficient r =
     write_payload s (add_32bit_float [] tds_coefficient) 0x0500
       (checked r (PyException ''Failed to set TDS coefficient'') (\<lambda>_. Returned PyNone))"

definition set_user_temperature_reference ::
  "session \<Rightarrow> pyval \<Rightarrow> response \<Rightarrow> session \<times> pyval outcome" where
  "set_user_temperature_reference s temperature_reference r =
     write_payload s (add_32bit_float [] temperature_reference) 0x0502
       (checked r (PyException ''Failed to set temperature reference'') (\<lambda>_. Returned PyNone))"

definition set_user_temperature_coefficient ::
  "session \<Rightarrow> pyval \<Rightarrow> response \<Rightarrow> session \<times> pyval outcome" where
  "set_user_temperature_coefficient s temperature_coefficient r =
     write_payload s (add_32bit_float [] temperature_coefficient) 0x0504
       (checked r (PyException ''Failed to set temperature coefficient'') (\<lambda>_. Returned PyNone))"

section \<open>Notions used to state the properties\<close>

text \<open>The transport calls made between two states of a session.\<close>

definition issued :: "session \<Rightarrow> session \<Rightarrow> request list" where
  "issued s s' = drop (length (calls s)) (calls s')"

text \<open>
  The operations of the class that make one transport call, each with its arguments
  supplied, and the two that call \<^verbatim>\<open>connect()\<close> before their write.
\<close>

definition plain_operations ::
  "int \<Rightarrow> string \<Rightarrow> pyval \<Rightarrow> pyval \<Rightarrow> pyval \<Rightarrow> (string \<rightharpoonup> pyval) \<Rightarrow>
   (session \<Rightarrow> response \<Rightarrow> session \<times> pyval outcome) list" where
  "plain_operations baud_rate parity t v w coefficients =
     [get_baud_rate_and_parity,
      (\<lambda>s. set_baud_rate_and_parity s baud_rate parity),
      get_device_info,
      get_data,
      get_cap_serial,
      odo_factory_reset,
      get_odo_last_calibration_time_and_qc_score,
      (\<lambda>s. perform_odo_zero_calibration s t),
      (\<lambda>s. perform_odo_percent_saturation_calibration s t v),
      (\<lambda>s. perform_odo_mgL_calibration s t v w),
      get_odo_cap_coefficients,
      (\<lambda>s. set_odo_cap_coefficients s coefficients),
      conductivity_factory_reset,
      get_conductivity_last_calibration_time_and_qc_score,
      (\<lambda>s. perform_us_cm_calibration s t v),
      (\<lambda>s. perform_salinity_ppt_calibration s t v),
      get_user_tds_coefficient,
      (\<lambda>s. set_user_tds_coefficient s v),
      get_user_temperature_reference,
      (\<lambda>s. set_user_temperature_reference s v),
      get_user_temperature_coefficient,
      (\<lambda>s. set_user_temperature_coefficient s v)]"

definition connecting_operations ::
  "pyval \<Rightarrow> pyval \<Rightarrow> (session \<Rightarrow> connect_result \<Rightarrow> response \<Rightarrow> session \<times> pyval outcome) list" where
  "connecting_operations t v =
     [(\<lambda>s. perform_specific_conductance_calibration s t v),
      (\<lambda>s. perform_nlf_conductivity_calibration s t v)]"

text \<open>
  The slices \<open>[a:b]\<close> of a field table follow one another from \<open>lo\<close> to \<open>hi\<close>, none
  empty, with no gap and no overlap.
\<close>

fun tiles :: "nat \<Rightarrow> nat \<Rightarrow> (string \<times> nat \<times> nat \<times> fmt) list \<Rightarrow> bool" where
  "tiles lo hi [] = (lo = hi)"
| "tiles lo hi ((name, a, b, f) # fs) = (a = lo \<and> a < b \<and> tiles b hi fs)"

definition span :: "string \<times> nat \<times> nat \<times> fmt \<Rightarrow> nat" where
  "span field = (case field of (name, a, b, f) \<Rightarrow> b - a)"

text \<open>The 32-bit pattern whose big-endian bytes are those of \<open>hi\<close>, then those of \<open>lo\<close>.\<close>

definition word_pair :: "reg \<Rightarrow> reg \<Rightarrow> 32 word" where
  "word_pair hi lo =
     push_bit 24 (ucast (ucast (drop_bit 8 hi) :: byte)) OR push_bit 16 (ucast (ucast hi :: byte)) OR
     push_bit 8 (ucast (ucast (drop_bit 8 lo) :: byte)) OR ucast (ucast lo :: byte)"

text \<open>What the specification expects of a fixed string: the bytes without their trailing NULs.\<close>

definition right_trimmed :: "byte list \<Rightarrow> byte list" where
  "right_trimmed bs = rev (dropWhile (\<lambda>b. b = 0) (rev bs))"

text \<open>
  Packing the value of one declared field, and a mapping in which a declared field is
  present with a value that packs.
\<close>

definition pack_field :: "string \<Rightarrow> pyval \<Rightarrow> byte list outcome" where
  "pack_field key v = (if key = ''KC'' then struct_pack_H v else struct_pack_f v)"

definition field_packs :: "(string \<rightharpoonup> pyval) \<Rightarrow> string \<Rightarrow> bool" where
  "field_packs coefficients key =
     (case coefficients key of None \<Rightarrow> False | Some v \<Rightarrow> ok (pack_field key v))"

definition encodable :: "(string \<rightharpoonup> pyval) \<Rightarrow> bool" where
  "encodable coefficients =
     list_all (\<lambda>key. case coefficients key of
                       None \<Rightarrow> False
                     | Some v \<Rightarrow> ok (if key = ''KC'' then struct_pack_H v else struct_pack_f v))
       cap_coefficient_keys"

text \<open>
  The mapping of the docstring of \<^verbatim>\<open>set_odo_cap_coefficients\<close>: 1.0, 0.0, -0.1, 0.01, -0.001,
  0.0001, -0.00001 as the binary32 patterns they pack to, \<^verbatim>\<open>KC\<close> 1 and the replacement time
  1610000000, an \<^verbatim>\<open>int\<close>.
\<close>

definition new_coefficients :: "string \<rightharpoonup> pyval" where
  "new_coefficients =
     [''K1'' \<mapsto> PyFloat 0x3F800000,
      ''K2'' \<mapsto> PyFloat 0x00000000,
      ''K3'' \<mapsto> PyFloat 0xBDCCCCCD,
      ''K4'' \<mapsto> PyFloat 0x3C23D70A,
      ''K5'' \<mapsto> PyFloat 0xBA83126F,
      ''K6'' \<mapsto> PyFloat 0x38D1B717,
      ''K7'' \<mapsto> PyFloat 0xB727C5AC,
      ''KC'' \<mapsto> PyInt 1,
      ''Cap Replacement Time'' \<mapsto> PyInt 1610000000]"


section \<open>Properties of the codec\<close>

lemma join_bytes_H: "pack_H (push_bit 8 (ucast a) OR ucast b) = [a, b]"
proof -
  have "ucast (drop_bit 8 (push_bit 8 (ucast a) OR ucast b :: reg)) = (a :: byte)"
    by (rule bit_word_eqI) (auto simp: bit_simps dest: bit_imp_le_length)
  moreover have "ucast (push_bit 8 (ucast a) OR ucast b :: reg) = (b :: byte)"
    by (rule bit_word_eqI) (auto simp: bit_simps dest: bit_imp_le_length)
  ultimately show ?thesis by (simp add: pack_H_def)
qed

lemma split_bytes_H: "push_bit 8 (ucast (ucast (drop_bit 8 r) :: byte)) OR ucast (ucast r :: byte) = (r :: reg)"
proof (rule bit_word_eqI)
  fix n assume "n < LENGTH(16)"
  then show "bit (push_bit 8 (ucast (ucast (drop_bit 8 r) :: byte)) OR ucast (ucast r :: byte) :: reg) n = bit r n"
    by (cases "n < 8") (auto simp: bit_simps)
qed

lemma unpack_H_pack_H: "unpack_H (pack_H r) = Returned r"
  by (simp add: pack_H_def split_bytes_H)

lemma split_bytes_I:
  "push_bit 24 (ucast (ucast (drop_bit 24 w) :: byte)) OR
   push_bit 16 (ucast (ucast (drop_bit 16 w) :: byte)) OR
   push_bit 8 (ucast (ucast (drop_bit 8 w) :: byte)) OR ucast (ucast w :: byte) = (w :: 32 word)"
proof (rule bit_word_eqI)
  fix n assume "n < LENGTH(32)"
  then show "bit (push_bit 24 (ucast (ucast (drop_bit 24 w) :: byte)) OR
      push_bit 16 (ucast (ucast (drop_bit 16 w) :: byte)) OR
      push_bit 8 (ucast (ucast (drop_bit 8 w) :: byte)) OR ucast (ucast w :: byte) :: 32 word) n = bit w n"
    by (cases "n < 8"; cases "n < 16"; cases "n < 24") (auto simp: bit_simps)
qed

lemma unpack_I_pack_I: "unpack_I (pack_I w) = Returned w"
  by (simp add: pack_I_def split_bytes_I)

lemma join_bytes_I:
  "pack_I (push_bit 24 (ucast a) OR push_bit 16 (ucast b) OR push_bit 8 (ucast c) OR ucast d) = [a, b, c, d]"
proof -
  let ?w = "push_bit 24 (ucast a) OR push_bit 16 (ucast b) OR push_bit 8 (ucast c) OR ucast d :: 32 word"
  have "ucast (drop_bit 24 ?w) = (a :: byte)"
    by (rule bit_word_eqI) (auto simp: bit_simps dest: bit_imp_le_length)
  moreover have "ucast (drop_bit 16 ?w) = (b :: byte)"
    by (rule bit_word_eqI) (auto simp: bit_simps dest: bit_imp_le_length)
  moreover have "ucast (drop_bit 8 ?w) = (c :: byte)"
    by (rule bit_word_eqI) (auto simp: bit_simps dest: bit_imp_le_length)
  moreover have "ucast ?w = (d :: byte)"
    by (rule bit_word_eqI) (auto simp: bit_simps dest: bit_imp_le_length)
  ultimately show ?thesis by (simp add: pack_I_def)
qed

lemma to_registers_pack_H: "to_registers (pack_H x @ bs) = x # to_registers bs"
  by (simp add: pack_H_def split_bytes_H)

lemma to_registers_fromRegisters: "to_registers (concat (map pack_H ws)) = ws"
  by (induction ws) (simp_all add: to_registers_pack_H)

lemma fromRegisters_to_registers:
  "even (length bs) \<Longrightarrow> concat (map pack_H (to_registers bs)) = bs"
  by (induction bs rule: to_registers.induct) (simp_all add: join_bytes_H)

lemma length_to_registers: "length (to_registers bs) = (length bs + 1) div 2"
  by (induction bs rule: to_registers.induct) simp_all

section \<open>The session and the connected attribute\<close>

lemma call_fields:
  "connected (call s q) = connected s" "unit_id (call s q) = unit_id s"
  "link_open (call s q) = link_open s" "calls (call s q) = calls s @ [q]"
  by (simp_all add: call_def)

lemma call_flag: "call (s\<lparr>connected := b\<rparr>) q = (call s q)\<lparr>connected := b\<rparr>"
  by (simp add: call_def)

lemma issued_call: "issued s (call s q) = [q]" "issued s s = []"
  "issued s (call (call s q) q') = [q, q']"
  by (simp_all add: issued_def call_def)

lemma write_payload_flag:
  "write_payload (s\<lparr>connected := b\<rparr>) p a res =
     (case write_payload s p a res of (s', v) \<Rightarrow> (s'\<lparr>connected := b\<rparr>, v))"
  by (cases p) (simp_all add: write_payload_def call_flag)

lemma write_payload_issued:
  "issued s (fst (write_payload s p a res)) =
     (case p of Raised e \<Rightarrow> [] | Returned bs \<Rightarrow> [WriteRegisters a (to_registers bs) (unit_id s)])"
  by (cases p) (simp_all add: write_payload_def issued_call)

lemmas operation_defs =
  get_baud_rate_and_parity_def set_baud_rate_and_parity_def get_device_info_def get_data_def
  get_cap_serial_def odo_factory_reset_def get_odo_last_calibration_time_and_qc_score_def
  perform_odo_zero_calibration_def perform_odo_percent_saturation_calibration_def
  perform_odo_mgL_calibration_def get_odo_cap_coefficients_def set_odo_cap_coefficients_def
  conductivity_factory_reset_def get_conductivity_last_calibration_time_and_qc_score_def
  perform_us_cm_calibration_def perform_salinity_ppt_calibration_def
  get_user_tds_coefficient_def set_user_tds_coefficient_def
  get_user_temperature_reference_def set_user_temperature_reference_def
  get_user_temperature_coefficient_def set_user_temperature_coefficient_def read_f32_def

lemma plain_operations_flag:
  "\<forall>op \<in> set (plain_operations baud_rate parity t v w c).
     op (s\<lparr>connected := b\<rparr>) r = (case op s r of (s', x) \<Rightarrow> (s'\<lparr>connected := b\<rparr>, x))"
  by (simp add: plain_operations_def operation_defs call_flag write_payload_flag)

lemma plain_operations_no_connect:
  "\<forall>op \<in> set (plain_operations baud_rate parity t v w c).
     Connect \<notin> set (issued s (fst (op s r))) \<and> Close \<notin> set (issued s (fst (op s r)))"
  by (simp add: plain_operations_def operation_defs issued_call write_payload_issued
      split: outcome.split)

lemma plain_operations_keep_flag:
  "\<forall>op \<in> set (plain_operations baud_rate parity t v w c).
     connected (fst (op s r)) = connected s \<and> link_open (fst (op s r)) = link_open s
       \<and> unit_id (fst (op s r)) = unit_id s"
  by (simp add: plain_operations_def operation_defs call_fields write_payload_def
      split: outcome.split)

lemma connect_returns:
  "connect s (ConnectReturns b) =
     ((call s Connect)\<lparr>connected := b, link_open := b\<rparr>, Returned (PyBool b))"
  by (simp add: connect_def)

lemma connect_issued: "\<exists>rest. issued s (fst (connect_then_write s cr p a res)) = Connect # rest"
proof (cases cr)
  case (ConnectRaises e)
  then show ?thesis
    by (cases e) (simp_all add: connect_then_write_def connect_def issued_def call_def)
next
  case (ConnectReturns b)
  then show ?thesis
    by (cases p) (simp_all add: connect_then_write_def connect_def write_payload_def issued_def call_def)
qed

lemma connect_refused:
  "connect_then_write s (ConnectReturns False) p a res =
     ((call s Connect)\<lparr>connected := False, link_open := False\<rparr>,
      Raised (AssertionError ''Failed to connect to the sensor''))"
  by (simp add: connect_then_write_def connect_def)

lemma connect_accepted:
  "connect_then_write s (ConnectReturns True) p a res =
     write_payload ((call s Connect)\<lparr>connected := True, link_open := True\<rparr>) p a res"
  by (simp add: connect_then_write_def connect_def)

lemma connect_then_write_flag:
  "connected (fst (connect_then_write s cr p a res)) = connected (fst (connect s cr))"
proof (cases "connect s cr")
  case (Pair s' x)
  then show ?thesis
    by (cases x; cases p) (simp_all add: connect_then_write_def write_payload_def call_fields)
qed

lemma ok_time_and_value:
  "ok (time_and_value t v) \<longleftrightarrow> ok (struct_pack_I t) \<and> ok (struct_pack_f v)"
  by (cases "struct_pack_I t"; cases "struct_pack_f v")
     (simp_all add: time_and_value_def add_32bit_uint_def add_32bit_float_def)

lemma ok_Returned: "ok x \<Longrightarrow> \<exists>y. x = Returned y"
  by (cases x) simp_all

text \<open>
  C10. \<^verbatim>\<open>disconnect()\<close> closes the transport and leaves the \<^verbatim>\<open>connected\<close> attribute as it
  was, so a session that connected successfully still reports itself connected after
  \<^verbatim>\<open>disconnect()\<close>. The attribute is False after \<^verbatim>\<open>__init__\<close>, takes the value that
  \<^verbatim>\<open>connect()\<close> returns, and no other operation assigns it: the operations that make one
  transport call keep it, and the two calibrations that call \<^verbatim>\<open>connect()\<close> leave it as
  that call set it.
\<close>

theorem disconnect_keeps_connected:
  "connected (disconnect s) = connected s
   \<and> link_open (disconnect s) = False
   \<and> issued s (disconnect s) = [Close]
   \<and> connected (init uid) = False
   \<and> connected (fst (connect s (ConnectReturns b))) = b
   \<and> connected (disconnect (fst (connect s (ConnectReturns True)))) = True
   \<and> (\<forall>op \<in> set (plain_operations baud_rate parity t v w c).
         connected (fst (op s r)) = connected s)
   \<and> (\<forall>op \<in> set (connecting_operations t v).
         connected (fst (op s cr r)) = connected (fst (connect s cr)))"
proof -
  have "connected (disconnect s) = connected s" "link_open (disconnect s) = False"
    "issued s (disconnect s) = [Close]" "connected (init uid) = False"
    by (simp_all add: disconnect_def call_def issued_def init_def)
  moreover have "connected (fst (connect s (ConnectReturns b))) = b"
    "connected (disconnect (fst (connect s (ConnectReturns True)))) = True"
    by (simp_all add: connect_returns disconnect_def call_def)
  moreover have "\<forall>op \<in> set (plain_operations baud_rate parity t v w c).
         connected (fst (op s r)) = connected s"
    using plain_operations_keep_flag [of baud_rate parity t v w c s r] by blast
  moreover have "\<forall>op \<in> set (connecting_operations t v).
         connected (fst (op s cr r)) = connected (fst (connect s cr))"
    by (simp add: connecting_operations_def perform_specific_conductance_calibration_def
        perform_nlf_conductivity_calibration_def connect_then_write_flag)
  ultimately show ?thesis by blast
qed

theorem disconnect_keeps_connected_witness:
  "get_data \<in> set (plain_operations 9600 ''none'' PyNone PyNone PyNone Map.empty)
   \<and> (\<lambda>s. perform_nlf_conductivity_calibration s PyNone PyNone) \<in> set (connecting_operations PyNone PyNone)
   \<and> connected (fst (connect (init 1) (ConnectReturns True))) = True
   \<and> connected (disconnect (fst (connect (init 1) (ConnectReturns True)))) = True
   \<and> connected (fst (get_data (fst (connect (init 1) (ConnectReturns True))) ErrorResponse)) = True
   \<and> connected (fst (perform_nlf_conductivity_calibration (init 1) PyNone PyNone (ConnectReturns True) ErrorResponse)) = True"
proof -
  have m: "get_data \<in> set (plain_operations 9600 ''none'' PyNone PyNone PyNone Map.empty)"
    by (simp add: plain_operations_def)
  have n: "(\<lambda>s. perform_nlf_conductivity_calibration s PyNone PyNone) \<in> set (connecting_operations PyNone PyNone)"
    by (simp add: connecting_operations_def)
  from disconnect_keeps_connected
    [of "fst (connect (init 1) (ConnectReturns True))" 1 True 9600 "''none''" PyNone PyNone PyNone Map.empty ErrorResponse "ConnectReturns True"]
  have a: "connected (fst (get_data (fst (connect (init 1) (ConnectReturns True))) ErrorResponse)) =
      connected (fst (connect (init 1) (ConnectReturns True)))"
    using m by blast
  from disconnect_keeps_connected
    [of "init 1" 1 True 9600 "''none''" PyNone PyNone PyNone Map.empty ErrorResponse "ConnectReturns True"]
  have b: "connected (fst (connect (init 1) (ConnectReturns True))) = True"
    "connected (disconnect (fst (connect (init 1) (ConnectReturns True)))) = True"
    and q: "\<forall>op \<in> set (connecting_operations PyNone PyNone).
       connected (fst (op (init 1) (ConnectReturns True) ErrorResponse))
         = connected (fst (connect (init 1) (ConnectReturns True)))"
    by blast+
  from bspec [OF q n]
  have "connected (fst (perform_nlf_conductivity_calibration (init 1) PyNone PyNone (ConnectReturns True) ErrorResponse))
       = connected (fst (connect (init 1) (ConnectReturns True)))"
    by simp
  with m n a b show ?thesis by simp
qed

text \<open>
  C1. At the failing input: with a response whose \<^verbatim>\<open>isError()\<close> is true,
  \<^verbatim>\<open>set_baud_rate_and_parity\<close> returns True and
  \<^verbatim>\<open>perform_odo_percent_saturation_calibration\<close> returns normally. These two, and the other
  writes that never look at the response, give the same result on an error response as on
  a good one; \<^verbatim>\<open>odo_factory_reset\<close> and \<^verbatim>\<open>set_user_tds_coefficient\<close>, which do look at it,
  return False and raise.
\<close>

theorem error_status_not_reported:
  "set_baud_rate_and_parity s 9600 ''none'' ErrorResponse =
     (call s (WriteRegister 0x0001 0 (unit_id s)), Returned (PyBool True))
   \<and> perform_odo_percent_saturation_calibration s (PyInt 1610000000) (PyFloat 0x443E0000) ErrorResponse =
     (call s (WriteRegisters 0x0230 [0x5FF6, 0xA680, 0x443E, 0x0000] (unit_id s)), Returned PyNone)
   \<and> set_baud_rate_and_parity s baud_rate parity ErrorResponse =
       set_baud_rate_and_parity s baud_rate parity (Registers ws)
   \<and> perform_odo_zero_calibration s t ErrorResponse = perform_odo_zero_calibration s t (Registers ws)
   \<and> perform_odo_percent_saturation_calibration s t v ErrorResponse =
       perform_odo_percent_saturation_calibration s t v (Registers ws)
   \<and> perform_odo_mgL_calibration s t v w ErrorResponse = perform_odo_mgL_calibration s t v w (Registers ws)
   \<and> set_odo_cap_coefficients s c ErrorResponse = set_odo_cap_coefficients s c (Registers ws)
   \<and> perform_us_cm_calibration s t v ErrorResponse = perform_us_cm_calibration s t v (Registers ws)
   \<and> perform_salinity_ppt_calibration s t v ErrorResponse =
       perform_salinity_ppt_calibration s t v (Registers ws)
   \<and> odo_factory_reset s ErrorResponse =
       (call s (WriteRegister 0x0200 1 (unit_id s)), Returned (PyBool False))
   \<and> snd (set_user_tds_coefficient s (PyFloat x) ErrorResponse) =
       Raised (PyException ''Failed to set TDS coefficient'')"
proof -
  have "set_baud_rate_and_parity s 9600 ''none'' ErrorResponse =
     (call s (WriteRegister 0x0001 0 (unit_id s)), Returned (PyBool True))"
    by (simp add: set_baud_rate_and_parity_def combined_value_def baud_rates_def parities_def
        ignoring_def)
  moreover have "perform_odo_percent_saturation_calibration s (PyInt 1610000000) (PyFloat 0x443E0000) ErrorResponse =
     (call s (WriteRegisters 0x0230 [0x5FF6, 0xA680, 0x443E, 0x0000] (unit_id s)), Returned PyNone)"
    by (simp add: perform_odo_percent_saturation_calibration_def write_payload_def
        time_and_value_def add_32bit_uint_def add_32bit_float_def struct_pack_I_def
        struct_pack_f_def pack_I_def ignoring_def quiet_nan_def is_nan_def)
  moreover have "ignoring ErrorResponse = ignoring (Registers ws)"
    by (rule ext) (simp add: ignoring_def)
  moreover have "odo_factory_reset s ErrorResponse =
       (call s (WriteRegister 0x0200 1 (unit_id s)), Returned (PyBool False))"
    by (simp add: odo_factory_reset_def)
  moreover have "snd (set_user_tds_coefficient s (PyFloat x) ErrorResponse) =
       Raised (PyException ''Failed to set TDS coefficient'')"
    by (simp add: set_user_tds_coefficient_def write_payload_def add_32bit_float_def
        struct_pack_f_def checked_def)
  ultimately show ?thesis
    by (simp add: set_baud_rate_and_parity_def perform_odo_zero_calibration_def
        perform_odo_percent_saturation_calibration_def perform_odo_mgL_calibration_def
        set_odo_cap_coefficients_def perform_us_cm_calibration_def
        perform_salinity_ppt_calibration_def)
qed

text \<open>
  C2, as stated, fails on a session that never connected:
  \<^verbatim>\<open>perform_specific_conductance_calibration\<close> calls \<^verbatim>\<open>connect()\<close> itself and then writes,
  and \<^verbatim>\<open>get_data\<close> issues its read and returns the decoded readings; neither rejects.
\<close>

theorem disconnected_session_not_rejected:
  "connected (init 1) = False
   \<and> perform_specific_conductance_calibration (init 1) (PyInt 1610000000) (PyFloat 0x44BB8000)
       (ConnectReturns True) (Registers []) =
       (\<lparr>unit_id = 1, connected = True, link_open = True,
          calls = [Connect, WriteRegisters 0x0340 [0x5FF6, 0xA680, 0x44BB, 0x8000] 1]\<rparr>,
        Returned PyNone)
   \<and> get_data (init 1)
       (Registers [0x42C8, 0, 0x4110, 0, 0x42C6, 0, 0, 0, 0x41A0, 0, 0x41A0, 0, 0, 60,
                   0x43FA, 0, 0x4409, 0, 0x3E80, 0, 0x4409, 0, 0x43B4, 0]) =
       (\<lparr>unit_id = 1, connected = False, link_open = False,
          calls = [ReadInputRegisters 0 24 1]\<rparr>,
        Returned (PyDict
          [(''odo_saturation'', PyFloat 0x42C80000),
           (''odo_concentration'', PyFloat 0x41100000),
           (''odo_local_barometer_compensated'', PyFloat 0x42C60000),
           (''temperature'', PyFloat 0x41A00000),
           (''ref_temperature'', PyFloat 0x41A00000),
           (''time_since_boot'', PyInt 60),
           (''conductivity'', PyFloat 0x43FA0000),
           (''specific_conductivity'', PyFloat 0x44090000),
           (''salinity'', PyFloat 0x3E800000),
           (''conductivity _nLF'', PyFloat 0x44090000),
           (''total_dissolved_solids'', PyFloat 0x43B40000)]))"
proof -
  have "connected (init 1) = False" by (simp add: init_def)
  moreover have "perform_specific_conductance_calibration (init 1) (PyInt 1610000000) (PyFloat 0x44BB8000)
       (ConnectReturns True) (Registers []) =
       (\<lparr>unit_id = 1, connected = True, link_open = True,
          calls = [Connect, WriteRegisters 0x0340 [0x5FF6, 0xA680, 0x44BB, 0x8000] 1]\<rparr>,
        Returned PyNone)"
    by (simp add: perform_specific_conductance_calibration_def connect_then_write_def connect_def
        write_payload_def time_and_value_def add_32bit_uint_def add_32bit_float_def
        struct_pack_I_def struct_pack_f_def pack_I_def checked_def init_def call_def
        quiet_nan_def is_nan_def)
  moreover have "get_data (init 1)
       (Registers [0x42C8, 0, 0x4110, 0, 0x42C6, 0, 0, 0, 0x41A0, 0, 0x41A0, 0, 0, 60,
                   0x43FA, 0, 0x4409, 0, 0x3E80, 0, 0x4409, 0, 0x43B4, 0]) =
       (\<lparr>unit_id = 1, connected = False, link_open = False,
          calls = [ReadInputRegisters 0 24 1]\<rparr>,
        Returned (PyDict
          [(''odo_saturation'', PyFloat 0x42C80000),
           (''odo_concentration'', PyFloat 0x41100000),
           (''odo_local_barometer_compensated'', PyFloat 0x42C60000),
           (''temperature'', PyFloat 0x41A00000),
           (''ref_temperature'', PyFloat 0x41A00000),
           (''time_since_boot'', PyInt 60),
           (''conductivity'', PyFloat 0x43FA0000),
           (''specific_conductivity'', PyFloat 0x44090000),
           (''salinity'', PyFloat 0x3E800000),
           (''conductivity _nLF'', PyFloat 0x44090000),
           (''total_dissolved_solids'', PyFloat 0x43B40000)]))"
    by (simp add: get_data_def checked_def as_dict_def live_snapshot_fields_def slice_def
        fromRegisters_def decode_32bit_float_def decode_32bit_uint_def advance_def pack_H_def
        init_def call_def quiet_nan_def is_nan_def)
  ultimately show ?thesis by blast
qed

text \<open>
  C2, amended. No operation consults the \<^verbatim>\<open>connected\<close> attribute or rejects a session
  that is not connected. Every operation that makes one transport call (\<^verbatim>\<open>get_data\<close>
  among them) does the same with the attribute True or False, and never calls
  \<^verbatim>\<open>connect()\<close>. \<^verbatim>\<open>perform_specific_conductance_calibration\<close> and
  \<^verbatim>\<open>perform_nlf_conductivity_calibration\<close> call \<^verbatim>\<open>connect()\<close> first, on every invocation:
  when it returns False they raise \<^verbatim>\<open>AssertionError\<close> without writing, and when it returns
  True the session is connected and, the arguments being encodable, the write follows.
\<close>

theorem connected_flag_never_checked:
  "(\<forall>op \<in> set (plain_operations baud_rate parity t v w c).
      op (s\<lparr>connected := b\<rparr>) r = (case op s r of (s', x) \<Rightarrow> (s'\<lparr>connected := b\<rparr>, x))
      \<and> Connect \<notin> set (issued s (fst (op s r))))
   \<and> issued s (fst (get_data s r)) = [ReadInputRegisters 0x0000 24 (unit_id s)]
   \<and> (\<forall>op \<in> set (connecting_operations t v).
        (\<exists>rest. issued s (fst (op s cr r)) = Connect # rest)
        \<and> op s (ConnectReturns False) r =
            ((call s Connect)\<lparr>connected := False, link_open := False\<rparr>,
             Raised (AssertionError ''Failed to connect to the sensor''))
        \<and> connected (fst (op s (ConnectReturns True) r)) = True
        \<and> (ok (struct_pack_I t) \<and> ok (struct_pack_f v) \<longrightarrow>
             (\<exists>a ws. issued s (fst (op s (ConnectReturns True) r)) =
                [Connect, WriteRegisters a ws (unit_id s)])))"
proof -
  have 1: "\<forall>op \<in> set (plain_operations baud_rate parity t v w c).
      op (s\<lparr>connected := b\<rparr>) r = (case op s r of (s', x) \<Rightarrow> (s'\<lparr>connected := b\<rparr>, x))
      \<and> Connect \<notin> set (issued s (fst (op s r)))"
    using plain_operations_flag [where s = s and b = b and r = r]
      plain_operations_no_connect [where s = s and r = r] by blast
  have 2: "issued s (fst (get_data s r)) = [ReadInputRegisters 0x0000 24 (unit_id s)]"
    by (simp add: get_data_def issued_call)
  have w: "ok (struct_pack_I t) \<and> ok (struct_pack_f v) \<Longrightarrow>
     \<exists>ws. issued s (fst (connect_then_write s (ConnectReturns True) (time_and_value t v) a res)) =
                [Connect, WriteRegisters a ws (unit_id s)]" for a res
  proof -
    assume "ok (struct_pack_I t) \<and> ok (struct_pack_f v)"
    then have "ok (time_and_value t v)" by (simp add: ok_time_and_value)
    then obtain bs where "time_and_value t v = Returned bs" by (auto dest: ok_Returned)
    then show ?thesis
      by (simp add: connect_accepted write_payload_def issued_def call_def)
  qed
  have 3: "\<forall>op \<in> set (connecting_operations t v).
        (\<exists>rest. issued s (fst (op s cr r)) = Connect # rest)
        \<and> op s (ConnectReturns False) r =
            ((call s Connect)\<lparr>connected := False, link_open := False\<rparr>,
             Raised (AssertionError ''Failed to connect to the sensor''))
        \<and> connected (fst (op s (ConnectReturns True) r)) = True
        \<and> (ok (struct_pack_I t) \<and> ok (struct_pack_f v) \<longrightarrow>
             (\<exists>a ws. issued s (fst (op s (ConnectReturns True) r)) =
                [Connect, WriteRegisters a ws (unit_id s)]))"
    using w
    by (simp add: connecting_operations_def perform_specific_conductance_calibration_def
        perform_nlf_conductivity_calibration_def connect_issued connect_refused
        connect_then_write_flag connect_returns) blast
  from 1 2 3 show ?thesis by blast
qed

theorem connected_flag_never_checked_witness:
  "get_data \<in> set (plain_operations 9600 ''none'' (PyInt 1610000000) (PyFloat 0x44BB8000) PyNone Map.empty)
   \<and> (\<lambda>s. perform_specific_conductance_calibration s (PyInt 1610000000) (PyFloat 0x44BB8000))
        \<in> set (connecting_operations (PyInt 1610000000) (PyFloat 0x44BB8000))
   \<and> ok (struct_pack_I (PyInt 1610000000)) \<and> ok (struct_pack_f (PyFloat 0x44BB8000))
   \<and> get_data ((init 1)\<lparr>connected := True\<rparr>) ErrorResponse =
        (case get_data (init 1) ErrorResponse of (s', x) \<Rightarrow> (s'\<lparr>connected := True\<rparr>, x))
   \<and> Connect \<notin> set (issued (init 1) (fst (get_data (init 1) ErrorResponse)))
   \<and> (\<exists>a ws. issued (init 1) (fst (perform_specific_conductance_calibration (init 1)
          (PyInt 1610000000) (PyFloat 0x44BB8000) (ConnectReturns True) ErrorResponse)) =
        [Connect, WriteRegisters a ws 1])"
proof -
  let ?t = "PyInt 1610000000" and ?v = "PyFloat 0x44BB8000"
  have m: "get_data \<in> set (plain_operations 9600 ''none'' ?t ?v PyNone Map.empty)"
    by (simp add: plain_operations_def)
  have n: "(\<lambda>s. perform_specific_conductance_calibration s ?t ?v) \<in> set (connecting_operations ?t ?v)"
    by (simp add: connecting_operations_def)
  have o: "ok (struct_pack_I ?t)" "ok (struct_pack_f ?v)"
    by (simp_all add: struct_pack_I_def struct_pack_f_def)
  note T = connected_flag_never_checked
    [where baud_rate = 9600 and parity = "''none''" and t = "?t" and v = "?v" and w = PyNone
       and c = Map.empty and s = "init 1" and b = True and r = ErrorResponse
       and cr = "ConnectReturns True"]
  from T have p: "\<forall>op \<in> set (plain_operations 9600 ''none'' ?t ?v PyNone Map.empty).
      op ((init 1)\<lparr>connected := True\<rparr>) ErrorResponse =
        (case op (init 1) ErrorResponse of (s', x) \<Rightarrow> (s'\<lparr>connected := True\<rparr>, x))
      \<and> Connect \<notin> set (issued (init 1) (fst (op (init 1) ErrorResponse)))"
    and q: "\<forall>op \<in> set (connecting_operations ?t ?v).
        (ok (struct_pack_I ?t) \<and> ok (struct_pack_f ?v) \<longrightarrow>
             (\<exists>a ws. issued (init 1) (fst (op (init 1) (ConnectReturns True) ErrorResponse)) =
                [Connect, WriteRegisters a ws (unit_id (init 1))]))"
    by blast+
  from bspec [OF p m] bspec [OF q n] m n o show ?thesis
    by (simp add: init_def)
qed

lemma quiet_bit: "(0x00400000 :: 32 word) = 2 ^ 22"
  by simp

lemma set_quiet_bit: "w OR 0x00400000 = w \<longleftrightarrow> w AND 0x00400000 \<noteq> (0 :: 32 word)"
proof -
  have "w AND 2 ^ 22 = 0 \<longleftrightarrow> \<not> bit w 22"
    by (rule and_exp_eq_0_iff_not_bit)
  moreover have "w OR 2 ^ 22 = w \<longleftrightarrow> bit w 22"
  proof
    assume "w OR 2 ^ 22 = w"
    then have "bit (w OR 2 ^ 22) 22 = bit w 22" by simp
    then show "bit w 22" by (simp add: bit_simps)
  next
    assume "bit w 22"
    then have "set_bit 22 w = w"
      by (intro bit_word_eqI) (auto simp: bit_set_bit_iff)
    moreover have "set_bit 22 w = w OR 2 ^ 22"
      by (simp add: set_bit_eq_or)
    ultimately show "w OR 2 ^ 22 = w" by simp
  qed
  ultimately show ?thesis unfolding quiet_bit by blast
qed

lemma quiet_nan_fixed: "quiet_nan w = w \<longleftrightarrow> \<not> signalling_nan w"
  using set_quiet_bit [of w] by (auto simp: quiet_nan_def signalling_nan_def)

lemma quiet_nan_quiet: "\<not> signalling_nan (quiet_nan w)"
proof -
  have "quiet_nan (quiet_nan w) = quiet_nan w"
    by (auto simp: quiet_nan_def is_nan_def bit_eq_iff bit_simps)
  then show ?thesis by (simp add: quiet_nan_fixed)
qed

lemma decode_32bit_float_pack_I:
  "fst (decode_32bit_float (fromRegisters (to_registers (pack_I w)))) =
     Returned (PyFloat (quiet_nan w))"
proof -
  have "concat (map pack_H (to_registers (pack_I w))) = pack_I w"
    by (rule fromRegisters_to_registers) (simp add: pack_I_def)
  then show ?thesis
    by (simp add: decode_32bit_float_def advance_def fromRegisters_def unpack_I_pack_I)
       (simp add: pack_I_def split_bytes_I)
qed

lemma decode_32bit_float_pair:
  "fst (decode_32bit_float (fromRegisters [a, b])) = Returned (PyFloat (quiet_nan (word_pair a b)))"
  by (simp add: decode_32bit_float_def advance_def fromRegisters_def pack_H_def word_pair_def)

lemma to_registers_pack_I_pair: "to_registers (pack_I (word_pair a b)) = [a, b]"
  by (simp add: word_pair_def join_bytes_I split_bytes_H)

text \<open>
  C7, amended. The F32 codec is a bit-for-bit round trip on every binary32 pattern that is
  not a signalling NaN: signed zeros, subnormals, normals, infinities and quiet NaNs with
  their payload. For such a pattern \<open>w\<close> the two registers that \<^verbatim>\<open>add_32bit_float\<close> and
  \<^verbatim>\<open>to_registers\<close> produce decode with \<^verbatim>\<open>decode_32bit_float\<close> to \<open>w\<close>, and two registers
  \<open>a\<close>, \<open>b\<close> holding such a pattern decode to a float that encodes to \<open>a\<close>, \<open>b\<close> again, also
  through \<^verbatim>\<open>set_user_tds_coefficient\<close> and \<^verbatim>\<open>get_user_tds_coefficient\<close>. A signalling NaN
  comes back as the quiet NaN with the same sign and payload, which differs from it in the
  bit \<open>0x00400000\<close>.
\<close>

theorem f32_round_trip:
  "(\<not> signalling_nan w \<longrightarrow>
      (\<exists>ws. add_32bit_float [] (PyFloat w) = Returned (concat (map pack_H ws)) \<and> length ws = 2
        \<and> to_registers (concat (map pack_H ws)) = ws
        \<and> fst (decode_32bit_float (fromRegisters ws)) = Returned (PyFloat w)
        \<and> fst (set_user_tds_coefficient s (PyFloat w) r) = call s (WriteRegisters 0x0500 ws (unit_id s))
        \<and> snd (get_user_tds_coefficient s' (Registers ws)) = Returned (PyFloat w)))
   \<and> (\<not> signalling_nan (word_pair a b) \<longrightarrow>
      (\<exists>w'. fst (decode_32bit_float (fromRegisters [a, b])) = Returned (PyFloat w')
        \<and> snd (get_user_tds_coefficient s' (Registers [a, b])) = Returned (PyFloat w')
        \<and> then_do (add_32bit_float [] (PyFloat w')) (\<lambda>bs. Returned (to_registers bs)) = Returned [a, b]
        \<and> fst (set_user_tds_coefficient s (PyFloat w') r) = call s (WriteRegisters 0x0500 [a, b] (unit_id s))))
   \<and> (signalling_nan n \<longrightarrow>
        quiet_nan n = n OR 0x00400000 \<and> quiet_nan n \<noteq> n \<and> \<not> signalling_nan (quiet_nan n)
        \<and> add_32bit_float [] (PyFloat n) = Returned (pack_I (quiet_nan n))
        \<and> fst (decode_32bit_float (fromRegisters (to_registers (pack_I n)))) =
            Returned (PyFloat (quiet_nan n)))"
proof (intro conjI impI)
  assume "\<not> signalling_nan w"
  then have q: "quiet_nan w = w" by (simp add: quiet_nan_fixed)
  let ?ws = "to_registers (pack_I w)"
  have p: "concat (map pack_H ?ws) = pack_I w"
    by (rule fromRegisters_to_registers) (simp add: pack_I_def)
  have "add_32bit_float [] (PyFloat w) = Returned (concat (map pack_H ?ws))"
    by (simp add: p q add_32bit_float_def struct_pack_f_def)
  moreover have "length ?ws = 2" by (simp add: pack_I_def)
  moreover have "to_registers (concat (map pack_H ?ws)) = ?ws" by (simp add: p)
  moreover have d: "fst (decode_32bit_float (fromRegisters ?ws)) = Returned (PyFloat w)"
    using decode_32bit_float_pack_I [of w] by (simp add: q)
  moreover have "fst (set_user_tds_coefficient s (PyFloat w) r) = call s (WriteRegisters 0x0500 ?ws (unit_id s))"
    by (simp add: q set_user_tds_coefficient_def write_payload_def add_32bit_float_def struct_pack_f_def)
  moreover have "snd (get_user_tds_coefficient s' (Registers ?ws)) = Returned (PyFloat w)"
    by (simp add: get_user_tds_coefficient_def read_f32_def checked_def d)
  ultimately show "\<exists>ws. add_32bit_float [] (PyFloat w) = Returned (concat (map pack_H ws)) \<and> length ws = 2
        \<and> to_registers (concat (map pack_H ws)) = ws
        \<and> fst (decode_32bit_float (fromRegisters ws)) = Returned (PyFloat w)
        \<and> fst (set_user_tds_coefficient s (PyFloat w) r) = call s (WriteRegisters 0x0500 ws (unit_id s))
        \<and> snd (get_user_tds_coefficient s' (Registers ws)) = Returned (PyFloat w)"
    by blast
next
  let ?w = "word_pair a b"
  assume "\<not> signalling_nan ?w"
  then have q: "quiet_nan ?w = ?w" by (simp add: quiet_nan_fixed)
  have d: "fst (decode_32bit_float (fromRegisters [a, b])) = Returned (PyFloat ?w)"
    using decode_32bit_float_pair [of a b] by (simp add: q)
  moreover have "snd (get_user_tds_coefficient s' (Registers [a, b])) = Returned (PyFloat ?w)"
    by (simp add: get_user_tds_coefficient_def read_f32_def checked_def d)
  moreover have "then_do (add_32bit_float [] (PyFloat ?w)) (\<lambda>bs. Returned (to_registers bs)) = Returned [a, b]"
    by (simp add: q add_32bit_float_def struct_pack_f_def to_registers_pack_I_pair)
  moreover have "fst (set_user_tds_coefficient s (PyFloat ?w) r) = call s (WriteRegisters 0x0500 [a, b] (unit_id s))"
    by (simp add: q set_user_tds_coefficient_def write_payload_def add_32bit_float_def struct_pack_f_def
        to_registers_pack_I_pair)
  ultimately show "\<exists>w'. fst (decode_32bit_float (fromRegisters [a, b])) = Returned (PyFloat w')
        \<and> snd (get_user_tds_coefficient s' (Registers [a, b])) = Returned (PyFloat w')
        \<and> then_do (add_32bit_float [] (PyFloat w')) (\<lambda>bs. Returned (to_registers bs)) = Returned [a, b]
        \<and> fst (set_user_tds_coefficient s (PyFloat w') r) = call s (WriteRegisters 0x0500 [a, b] (unit_id s))"
    by blast
next
  assume n: "signalling_nan n"
  then show "quiet_nan n = n OR 0x00400000" by (simp add: quiet_nan_def signalling_nan_def)
  from n show "quiet_nan n \<noteq> n" by (simp add: quiet_nan_fixed)
  show "\<not> signalling_nan (quiet_nan n)" by (rule quiet_nan_quiet)
  show "add_32bit_float [] (PyFloat n) = Returned (pack_I (quiet_nan n))"
    by (simp add: add_32bit_float_def struct_pack_f_def)
  show "fst (decode_32bit_float (fromRegisters (to_registers (pack_I n)))) =
            Returned (PyFloat (quiet_nan n))"
    by (rule decode_32bit_float_pack_I)
qed

theorem f32_round_trip_witness:
  "\<not> signalling_nan 0x80000000
   \<and> (\<exists>ws. fst (set_user_tds_coefficient (init 1) (PyFloat 0x80000000) (Registers [])) =
              call (init 1) (WriteRegisters 0x0500 ws 1)
          \<and> snd (get_user_tds_coefficient (init 1) (Registers ws)) = Returned (PyFloat 0x80000000))
   \<and> \<not> signalling_nan (word_pair 0x7FC1 0x2345)
   \<and> (\<exists>w'. snd (get_user_tds_coefficient (init 1) (Registers [0x7FC1, 0x2345])) = Returned (PyFloat w')
          \<and> fst (set_user_tds_coefficient (init 1) (PyFloat w') (Registers [])) =
              call (init 1) (WriteRegisters 0x0500 [0x7FC1, 0x2345] 1))
   \<and> signalling_nan 0x7F800001
   \<and> quiet_nan 0x7F800001 \<noteq> 0x7F800001
   \<and> fst (decode_32bit_float (fromRegisters (to_registers (pack_I 0x7F800001)))) =
        Returned (PyFloat (quiet_nan 0x7F800001))"
proof -
  have h1: "\<not> signalling_nan 0x80000000"
    by (simp add: signalling_nan_def is_nan_def)
  have h2: "\<not> signalling_nan (word_pair 0x7FC1 0x2345)"
    by (simp add: signalling_nan_def is_nan_def word_pair_def)
  have h3: "signalling_nan 0x7F800001"
    by (simp add: signalling_nan_def is_nan_def)
  have u: "unit_id (init 1) = 1" by (simp add: init_def)
  note T = f32_round_trip [where w = "0x80000000" and a = "0x7FC1" and b = "0x2345"
      and n = "0x7F800001" and s = "init 1" and s' = "init 1" and r = "Registers []"]
  from T [THEN conjunct1, THEN mp, OF h1]
  have a: "\<exists>ws. fst (set_user_tds_coefficient (init 1) (PyFloat 0x80000000) (Registers [])) =
              call (init 1) (WriteRegisters 0x0500 ws 1)
          \<and> snd (get_user_tds_coefficient (init 1) (Registers ws)) = Returned (PyFloat 0x80000000)"
    unfolding u by blast
  from T [THEN conjunct2, THEN conjunct1, THEN mp, OF h2]
  have b: "\<exists>w'. snd (get_user_tds_coefficient (init 1) (Registers [0x7FC1, 0x2345])) = Returned (PyFloat w')
          \<and> fst (set_user_tds_coefficient (init 1) (PyFloat w') (Registers [])) =
              call (init 1) (WriteRegisters 0x0500 [0x7FC1, 0x2345] 1)"
    unfolding u by blast
  from T [THEN conjunct2, THEN conjunct2, THEN mp, OF h3]
  have c: "quiet_nan 0x7F800001 \<noteq> 0x7F800001"
    "fst (decode_32bit_float (fromRegisters (to_registers (pack_I 0x7F800001)))) =
        Returned (PyFloat (quiet_nan 0x7F800001))"
    by blast+
  from h1 a h2 b h3 c show ?thesis by (intro conjI)
qed

text \<open>
  C7, as stated, fails on a signalling NaN: the registers \<open>0x7F80\<close>, \<open>0x0001\<close> are read as
  a float that is written back as \<open>0x7FC0\<close>, \<open>0x0001\<close>, and the float with the pattern
  \<open>0x7F800001\<close> is written and read back as the one with \<open>0x7FC00001\<close>.
\<close>

theorem signalling_nan_not_preserved:
  "snd (get_user_tds_coefficient (init 1) (Registers [0x7F80, 0x0001])) = Returned (PyFloat 0x7FC00001)
   \<and> set_user_tds_coefficient (init 1) (PyFloat 0x7FC00001) (Registers []) =
       (\<lparr>unit_id = 1, connected = False, link_open = False,
          calls = [WriteRegisters 0x0500 [0x7FC0, 0x0001] 1]\<rparr>,
        Returned PyNone)
   \<and> set_user_tds_coefficient (init 1) (PyFloat 0x7F800001) (Registers []) =
       (\<lparr>unit_id = 1, connected = False, link_open = False,
          calls = [WriteRegisters 0x0500 [0x7FC0, 0x0001] 1]\<rparr>,
        Returned PyNone)"
proof -
  have "snd (get_user_tds_coefficient (init 1) (Registers [0x7F80, 0x0001])) = Returned (PyFloat 0x7FC00001)"
    by (simp add: get_user_tds_coefficient_def read_f32_def checked_def decode_32bit_float_def
        advance_def fromRegisters_def pack_H_def quiet_nan_def is_nan_def)
  moreover have "set_user_tds_coefficient (init 1) (PyFloat 0x7FC00001) (Registers []) =
       (\<lparr>unit_id = 1, connected = False, link_open = False,
          calls = [WriteRegisters 0x0500 [0x7FC0, 0x0001] 1]\<rparr>,
        Returned PyNone)"
    by (simp add: set_user_tds_coefficient_def write_payload_def add_32bit_float_def
        struct_pack_f_def pack_I_def checked_def init_def call_def quiet_nan_def is_nan_def)
  moreover have "set_user_tds_coefficient (init 1) (PyFloat 0x7F800001) (Registers []) =
       (\<lparr>unit_id = 1, connected = False, link_open = False,
          calls = [WriteRegisters 0x0500 [0x7FC0, 0x0001] 1]\<rparr>,
        Returned PyNone)"
    by (simp add: set_user_tds_coefficient_def write_payload_def add_32bit_float_def
        struct_pack_f_def pack_I_def checked_def init_def call_def quiet_nan_def is_nan_def)
  ultimately show ?thesis by blast
qed


lemma map_of_known:
  "map_of baud_rates baud_rate = None \<longleftrightarrow> baud_rate \<notin> fst ` set baud_rates"
  "map_of parities parity = None \<longleftrightarrow> parity \<notin> fst ` set parities"
  by (simp_all add: map_of_eq_None_iff)

text \<open>
  C9. A baud rate or a parity that is not a key of the code tables makes
  \<^verbatim>\<open>set_baud_rate_and_parity\<close> raise its \<^verbatim>\<open>ValueError\<close> before any transport call: the
  session, with its record of calls, is returned as it was.
\<close>

theorem unknown_label_rejected:
  assumes "baud_rate \<notin> fst ` set baud_rates \<or> parity \<notin> fst ` set parities"
  shows "set_baud_rate_and_parity s baud_rate parity r =
           (s, Raised (ValueError ''Invalid baud rate or parity.''))"
  using assms by (auto simp: set_baud_rate_and_parity_def map_of_known)

theorem unknown_label_rejected_witness:
  "(1200::int) \<notin> fst ` set baud_rates \<and>
   set_baud_rate_and_parity (init 1) 1200 ''even'' (Registers []) =
     (init 1, Raised (ValueError ''Invalid baud rate or parity.'')) \<and>
   calls (fst (set_baud_rate_and_parity (init 1) 1200 ''even'' (Registers []))) = []"
proof -
  have h: "(1200::int) \<notin> fst ` set baud_rates" by (simp add: baud_rates_def)
  then have "(1200::int) \<notin> fst ` set baud_rates \<or> ''even'' \<notin> fst ` set parities" by simp
  from unknown_label_rejected [OF this, of "init 1" "Registers []"] h
  show ?thesis by (simp add: init_def)
qed





section \<open>Decoding the live snapshot and the fixed strings\<close>

lemma take_concat_pack_H:
  "take (2 * n) (concat (map pack_H ws)) = concat (map pack_H (take n ws))"
proof (induction ws arbitrary: n)
  case Nil
  then show ?case by simp
next
  case (Cons x xs)
  show ?case
  proof (cases n)
    case 0
    then show ?thesis by simp
  next
    case (Suc m)
    with Cons [of m] show ?thesis by (simp add: pack_H_def)
  qed
qed

lemma decode_pair:
  "fst (decode_32bit_float (fromRegisters (a # b # rest))) =
     Returned (PyFloat (quiet_nan (word_pair a b)))"
  "fst (decode_32bit_uint (fromRegisters (a # b # rest))) = Returned (PyInt (uint (word_pair a b)))"
  by (simp_all add: decode_32bit_float_def decode_32bit_uint_def advance_def fromRegisters_def
      pack_H_def word_pair_def)

lemma decode_one:
  "fst (decode_16bit_uint (fromRegisters (a # rest))) = Returned (PyInt (uint a))"
  by (simp add: decode_16bit_uint_def advance_def fromRegisters_def pack_H_def split_bytes_H)

lemma decode_str:
  "fst (decode_string (fromRegisters ws) (2 * n)) = Returned (PyBytes (concat (map pack_H (take n ws))))"
  by (simp add: decode_string_def advance_def fromRegisters_def take_concat_pack_H)

lemma live_snapshot_decoded:
  "decode_slices [r0, r1, r2, r3, r4, r5, r6, r7, r8, r9, r10, r11, r12, r13, r14, r15, r16,
        r17, r18, r19, r20, r21, r22, r23] live_snapshot_fields =
     Returned
        [(''odo_saturation'', PyFloat (quiet_nan (word_pair r0 r1))),
         (''odo_concentration'', PyFloat (quiet_nan (word_pair r2 r3))),
         (''odo_local_barometer_compensated'', PyFloat (quiet_nan (word_pair r4 r5))),
         (''temperature'', PyFloat (quiet_nan (word_pair r8 r9))),
         (''ref_temperature'', PyFloat (quiet_nan (word_pair r10 r11))),
         (''time_since_boot'', PyInt (uint (word_pair r12 r13))),
         (''conductivity'', PyFloat (quiet_nan (word_pair r14 r15))),
         (''specific_conductivity'', PyFloat (quiet_nan (word_pair r16 r17))),
         (''salinity'', PyFloat (quiet_nan (word_pair r18 r19))),
         (''conductivity _nLF'', PyFloat (quiet_nan (word_pair r20 r21))),
         (''total_dissolved_solids'', PyFloat (quiet_nan (word_pair r22 r23)))]"
  by (simp add: live_snapshot_fields_def slice_def decode_pair)

text \<open>
  C3, amended. The eleven slices of \<^verbatim>\<open>get_data\<close> follow one another from register 0 to
  register 24 with no gap and no overlap. Ten of them are two registers long and the
  slice of \<^verbatim>\<open>odo_local_barometer_compensated\<close> is four, registers 4 to 7. A 32-bit float or
  integer is decoded from the first two registers of its slice, whatever follows them, so
  a block of 24 registers decodes to eleven values in which registers 6 and 7 take no part.
\<close>

theorem live_snapshot_spans:
  "tiles 0 24 live_snapshot_fields
   \<and> length live_snapshot_fields = 11
   \<and> map span live_snapshot_fields = [2, 2, 4, 2, 2, 2, 2, 2, 2, 2, 2]
   \<and> fst (decode F32 (fromRegisters (a # b # rest))) =
       Returned (PyFloat (quiet_nan (word_pair a b)))
   \<and> fst (decode U32 (fromRegisters (a # b # rest))) = Returned (PyInt (uint (word_pair a b)))
   \<and> snd (get_data s (Registers [r0, r1, r2, r3, r4, r5, r6, r7, r8, r9, r10, r11, r12, r13,
        r14, r15, r16, r17, r18, r19, r20, r21, r22, r23])) =
      Returned (PyDict
        [(''odo_saturation'', PyFloat (quiet_nan (word_pair r0 r1))),
         (''odo_concentration'', PyFloat (quiet_nan (word_pair r2 r3))),
         (''odo_local_barometer_compensated'', PyFloat (quiet_nan (word_pair r4 r5))),
         (''temperature'', PyFloat (quiet_nan (word_pair r8 r9))),
         (''ref_temperature'', PyFloat (quiet_nan (word_pair r10 r11))),
         (''time_since_boot'', PyInt (uint (word_pair r12 r13))),
         (''conductivity'', PyFloat (quiet_nan (word_pair r14 r15))),
         (''specific_conductivity'', PyFloat (quiet_nan (word_pair r16 r17))),
         (''salinity'', PyFloat (quiet_nan (word_pair r18 r19))),
         (''conductivity _nLF'', PyFloat (quiet_nan (word_pair r20 r21))),
         (''total_dissolved_solids'', PyFloat (quiet_nan (word_pair r22 r23)))])"
proof -
  have "tiles 0 24 live_snapshot_fields" "length live_snapshot_fields = 11"
    "map span live_snapshot_fields = [2, 2, 4, 2, 2, 2, 2, 2, 2, 2, 2]"
    by (simp_all add: live_snapshot_fields_def span_def)
  then show ?thesis
    by (simp add: decode_pair get_data_def checked_def as_dict_def live_snapshot_decoded)
qed

text \<open>
  C3, as stated, fails: the third field's slice is four registers long, and two blocks
  that differ in registers 6 and 7 decode to the same readings, so those two registers
  are consumed by no field.
\<close>

theorem live_snapshot_not_two_words_each:
  "live_snapshot_fields ! 2 = (''odo_local_barometer_compensated'', 4, 8, F32)
   \<and> span (live_snapshot_fields ! 2) = 4
   \<and> get_data (init 1)
        (Registers [0, 0, 0, 0, 0, 0, 0xFFFF, 0xFFFF, 0, 0, 0, 0, 0, 0, 0, 0, 0, 0, 0, 0, 0, 0, 0, 0])
     = get_data (init 1)
        (Registers [0, 0, 0, 0, 0, 0, 0, 0, 0, 0, 0, 0, 0, 0, 0, 0, 0, 0, 0, 0, 0, 0, 0, 0])"
proof -
  have "live_snapshot_fields ! 2 = (''odo_local_barometer_compensated'', 4, 8, F32)"
    "span (live_snapshot_fields ! 2) = 4"
    by (simp_all add: live_snapshot_fields_def span_def)
  moreover have "get_data (init 1)
        (Registers [0, 0, 0, 0, 0, 0, 0xFFFF, 0xFFFF, 0, 0, 0, 0, 0, 0, 0, 0, 0, 0, 0, 0, 0, 0, 0, 0])
     = get_data (init 1)
        (Registers [0, 0, 0, 0, 0, 0, 0, 0, 0, 0, 0, 0, 0, 0, 0, 0, 0, 0, 0, 0, 0, 0, 0, 0])"
    by (simp add: get_data_def checked_def live_snapshot_decoded)
  ultimately show ?thesis by blast
qed

lemma device_info_decoded:
  "decode_slices [p, m, sm, f1, f2, f3, h1, h2, a0, a1, a2, a3, a4, b0, b1, b2, b3]
       device_info_fields =
     Returned
        [(''product_id'', PyInt (uint p)),
         (''model_id'', PyInt (uint m)),
         (''submodel_id'', PyInt (uint sm)),
         (''firmware_major_revision'', PyInt (uint f1)),
         (''firmware_minor_revision'', PyInt (uint f2)),
         (''firmware_subminor_revision'', PyInt (uint f3)),
         (''hardware_major_revision'', PyInt (uint h1)),
         (''hardware_minor_revision'', PyInt (uint h2)),
         (''manufacturing_serial_number'', PyBytes (concat (map pack_H [a0, a1, a2, a3, a4]))),
         (''printed_circuit_board_serial_number'', PyBytes (concat (map pack_H [b0, b1, b2, b3])))]"
proof -
  have "fst (decode_string (fromRegisters ws) 10) = Returned (PyBytes (concat (map pack_H (take 5 ws))))"
    "fst (decode_string (fromRegisters ws) 8) = Returned (PyBytes (concat (map pack_H (take 4 ws))))" for ws
    using decode_str [of ws 5] decode_str [of ws 4] by simp_all
  then show ?thesis
    by (simp add: device_info_fields_def slice_def decode_one)
qed

text \<open>
  C5, amended. A fixed string is decoded as the bytes of its registers, two per register,
  high byte first, and all of them are returned: \<^verbatim>\<open>get_cap_serial\<close> returns the bytes of the
  first five registers of the response, and \<^verbatim>\<open>get_device_info\<close> on a block of 17 registers
  returns the ten bytes of registers 8 to 12 and the eight bytes of registers 13 to 16,
  NULs included. Nothing is trimmed.
\<close>

theorem fixed_strings_untrimmed:
  "snd (get_cap_serial s (Registers ws)) = Returned (PyBytes (concat (map pack_H (take 5 ws))))
   \<and> snd (get_device_info s
        (Registers [p, m, sm, f1, f2, f3, h1, h2, a0, a1, a2, a3, a4, b0, b1, b2, b3])) =
      Returned (PyDict
        [(''product_id'', PyInt (uint p)),
         (''model_id'', PyInt (uint m)),
         (''submodel_id'', PyInt (uint sm)),
         (''firmware_major_revision'', PyInt (uint f1)),
         (''firmware_minor_revision'', PyInt (uint f2)),
         (''firmware_subminor_revision'', PyInt (uint f3)),
         (''hardware_major_revision'', PyInt (uint h1)),
         (''hardware_minor_revision'', PyInt (uint h2)),
         (''manufacturing_serial_number'', PyBytes (concat (map pack_H [a0, a1, a2, a3, a4]))),
         (''printed_circuit_board_serial_number'', PyBytes (concat (map pack_H [b0, b1, b2, b3])))])
   \<and> pack_H r = [ucast (drop_bit 8 r), ucast r]
   \<and> length (concat (map pack_H [a0, a1, a2, a3, a4])) = 10
   \<and> length (concat (map pack_H [b0, b1, b2, b3])) = 8"
proof -
  have "fst (decode_string (fromRegisters ws) 10) = Returned (PyBytes (concat (map pack_H (take 5 ws))))"
    using decode_str [of ws 5] by simp
  then have "snd (get_cap_serial s (Registers ws)) = Returned (PyBytes (concat (map pack_H (take 5 ws))))"
    by (simp add: get_cap_serial_def checked_def)
  moreover have "length (concat (map pack_H [a0, a1, a2, a3, a4])) = 10"
    "length (concat (map pack_H [b0, b1, b2, b3])) = 8" "pack_H r = [ucast (drop_bit 8 r), ucast r]"
    by (simp_all add: pack_H_def)
  ultimately show ?thesis
    by (simp add: get_device_info_def checked_def as_dict_def device_info_decoded)
qed

text \<open>
  C5, as stated, fails: for the serial numbers \<^verbatim>\<open>SN01\<close> and \<^verbatim>\<open>PCB\<close> padded with NULs the
  decoded values keep their padding, ten and eight bytes long, where the trimmed string
  has four and three.
\<close>

theorem serial_numbers_not_trimmed:
  "snd (get_cap_serial (init 1) (Registers [0x534E, 0x3031, 0, 0, 0])) =
     Returned (PyBytes [0x53, 0x4E, 0x30, 0x31, 0, 0, 0, 0, 0, 0])
   \<and> right_trimmed [0x53, 0x4E, 0x30, 0x31, 0, 0, 0, 0, 0, 0] = [0x53, 0x4E, 0x30, 0x31]
   \<and> snd (get_device_info (init 1)
        (Registers [1, 2, 3, 4, 5, 6, 7, 8, 0x534E, 0x3031, 0, 0, 0, 0x5043, 0x4200, 0, 0])) =
      Returned (PyDict
        [(''product_id'', PyInt 1),
         (''model_id'', PyInt 2),
         (''submodel_id'', PyInt 3),
         (''firmware_major_revision'', PyInt 4),
         (''firmware_minor_revision'', PyInt 5),
         (''firmware_subminor_revision'', PyInt 6),
         (''hardware_major_revision'', PyInt 7),
         (''hardware_minor_revision'', PyInt 8),
         (''manufacturing_serial_number'', PyBytes [0x53, 0x4E, 0x30, 0x31, 0, 0, 0, 0, 0, 0]),
         (''printed_circuit_board_serial_number'', PyBytes [0x50, 0x43, 0x42, 0, 0, 0, 0, 0])])"
proof -
  have "snd (get_cap_serial (init 1) (Registers [0x534E, 0x3031, 0, 0, 0])) =
     Returned (PyBytes [0x53, 0x4E, 0x30, 0x31, 0, 0, 0, 0, 0, 0])"
    by (simp add: get_cap_serial_def checked_def decode_string_def advance_def fromRegisters_def
        pack_H_def)
  moreover have "right_trimmed [0x53, 0x4E, 0x30, 0x31, 0, 0, 0, 0, 0, 0] = [0x53, 0x4E, 0x30, 0x31]"
    by (simp add: right_trimmed_def)
  moreover have "snd (get_device_info (init 1)
        (Registers [1, 2, 3, 4, 5, 6, 7, 8, 0x534E, 0x3031, 0, 0, 0, 0x5043, 0x4200, 0, 0])) =
      Returned (PyDict
        [(''product_id'', PyInt 1),
         (''model_id'', PyInt 2),
         (''submodel_id'', PyInt 3),
         (''firmware_major_revision'', PyInt 4),
         (''firmware_minor_revision'', PyInt 5),
         (''firmware_subminor_revision'', PyInt 6),
         (''hardware_major_revision'', PyInt 7),
         (''hardware_minor_revision'', PyInt 8),
         (''manufacturing_serial_number'', PyBytes [0x53, 0x4E, 0x30, 0x31, 0, 0, 0, 0, 0, 0]),
         (''printed_circuit_board_serial_number'', PyBytes [0x50, 0x43, 0x42, 0, 0, 0, 0, 0])])"
    by (simp add: get_device_info_def checked_def as_dict_def device_info_decoded pack_H_def)
  ultimately show ?thesis by blast
qed

section \<open>Block writes\<close>

lemma struct_pack_lengths:
  "struct_pack_H v = Returned bs \<Longrightarrow> length bs = 2"
  "struct_pack_I v = Returned bs \<Longrightarrow> length bs = 4"
  "struct_pack_f v = Returned bs \<Longrightarrow> length bs = 4"
  by (auto simp: struct_pack_H_def struct_pack_I_def struct_pack_f_def pack_H_def pack_I_def
      split: option.splits if_splits pyval.splits)

lemma add_field_length:
  "(if key = ''KC'' then add_16bit_uint b v else add_32bit_float b v) = Returned p
     \<Longrightarrow> length p = length b + (if key = ''KC'' then 2 else 4)"
  by (cases "struct_pack_H v"; cases "struct_pack_f v")
     (auto simp: add_16bit_uint_def add_32bit_float_def struct_pack_lengths split: if_splits)

lemma add_coefficients_length:
  "add_coefficients c ks b = Returned p \<Longrightarrow>
     length p = length b + sum_list (map (\<lambda>key. if key = ''KC'' then 2 else 4) ks)"
proof (induction ks arbitrary: b)
  case Nil
  then show ?case by simp
next
  case (Cons key ks)
  from Cons.prems obtain v where v: "c key = Some v"
    by (cases "c key") simp_all
  with Cons.prems obtain b' where
    b': "(if key = ''KC'' then add_16bit_uint b v else add_32bit_float b v) = Returned b'"
    and r: "add_coefficients c ks b' = Returned p"
    by (cases "if key = ''KC'' then add_16bit_uint b v else add_32bit_float b v") simp_all
  from add_field_length [OF b'] Cons.IH [OF r] show ?case by simp
qed

lemma add_field_ok:
  "ok (if key = ''KC'' then add_16bit_uint b v else add_32bit_float b v) \<longleftrightarrow>
   ok (if key = ''KC'' then struct_pack_H v else struct_pack_f v)"
  by (cases "struct_pack_H v"; cases "struct_pack_f v")
     (simp_all add: add_16bit_uint_def add_32bit_float_def)

lemma add_coefficients_ok:
  "ok (add_coefficients c ks b) \<longleftrightarrow>
     list_all (\<lambda>key. case c key of
                       None \<Rightarrow> False
                     | Some v \<Rightarrow> ok (if key = ''KC'' then struct_pack_H v else struct_pack_f v)) ks"
proof (induction ks arbitrary: b)
  case Nil
  then show ?case by simp
next
  case (Cons key ks)
  show ?case
  proof (cases "c key")
    case None
    then show ?thesis by simp
  next
    case (Some v)
    show ?thesis
    proof (cases "if key = ''KC'' then add_16bit_uint b v else add_32bit_float b v")
      case (Returned b')
      with Some Cons.IH [of b'] add_field_ok [of key b v] show ?thesis by simp
    next
      case (Raised e)
      with Some add_field_ok [of key b v] show ?thesis by simp
    qed
  qed
qed

lemma add_field_raises:
  "(if key = ''KC'' then add_16bit_uint b v else add_32bit_float b v) = Raised e
     \<Longrightarrow> e = StructError \<or> e = OverflowError"
  by (auto simp: add_16bit_uint_def add_32bit_float_def struct_pack_H_def struct_pack_f_def
      split: if_splits option.splits pyval.splits)

lemma add_coefficients_missing:
  "k \<in> set ks \<Longrightarrow> c k = None \<Longrightarrow>
     \<exists>e. add_coefficients c ks b = Raised e \<and>
         (e \<in> KeyError ` {k \<in> set ks. c k = None} \<or> e = StructError \<or> e = OverflowError)"
proof (induction ks arbitrary: b)
  case Nil
  then show ?case by simp
next
  case (Cons key ks)
  show ?case
  proof (cases "c key")
    case None
    then show ?thesis by simp
  next
    case (Some v)
    with Cons.prems have k: "k \<in> set ks" by auto
    show ?thesis
    proof (cases "if key = ''KC'' then add_16bit_uint b v else add_32bit_float b v")
      case (Returned b')
      from Cons.IH [OF k Cons.prems(2), of b'] obtain e where
        "add_coefficients c ks b' = Raised e"
        "e \<in> KeyError ` {k \<in> set ks. c k = None} \<or> e = StructError \<or> e = OverflowError"
        by blast
      with Some Returned show ?thesis by auto
    next
      case (Raised e)
      with Some add_field_raises [OF Raised] show ?thesis by auto
    qed
  qed
qed

lemma add_coefficients_cong:
  "\<forall>k \<in> set ks. c' k = c k \<Longrightarrow> add_coefficients c' ks b = add_coefficients c ks b"
proof (induction ks arbitrary: b)
  case Nil
  then show ?case by simp
next
  case (Cons key ks)
  then have t: "add_coefficients c' ks b' = add_coefficients c ks b'" for b'
    by simp
  from Cons.prems have k: "c' key = c key" by simp
  show ?case
  proof (cases "c key")
    case None
    with k show ?thesis by simp
  next
    case (Some v)
    with k t show ?thesis
      by (cases "if key = ''KC'' then add_16bit_uint b v else add_32bit_float b v") simp_all
  qed
qed

lemma write_payload_once:
  "p = Returned bs \<Longrightarrow> length bs = 2 * n \<Longrightarrow>
     \<exists>ws. issued s (fst (write_payload s p a res)) = [WriteRegisters a ws (unit_id s)]
          \<and> length ws = n"
  by (simp add: write_payload_def issued_call length_to_registers)

lemma cap_payload:
  "encodable c \<Longrightarrow> \<exists>bs. add_coefficients c cap_coefficient_keys [] = Returned bs \<and> length bs = 2 * 17"
proof -
  assume "encodable c"
  then have "ok (add_coefficients c cap_coefficient_keys [])"
    by (simp add: encodable_def add_coefficients_ok)
  then obtain bs where bs: "add_coefficients c cap_coefficient_keys [] = Returned bs"
    by (auto dest: ok_Returned)
  from add_coefficients_length [OF bs] have "length bs = 34"
    by (simp add: cap_coefficient_keys_def)
  with bs show ?thesis by simp
qed

lemma add_field_pack:
  "(if key = ''KC'' then add_16bit_uint b v else add_32bit_float b v) =
     then_do (pack_field key v) (\<lambda>bs. Returned (b @ bs))"
  by (simp add: pack_field_def add_16bit_uint_def add_32bit_float_def)

lemma add_coefficients_prefix:
  "list_all (field_packs c) pre \<Longrightarrow>
     \<exists>b'. add_coefficients c (pre @ ks) b = add_coefficients c ks b'"
proof (induction pre arbitrary: b)
  case Nil
  show ?case by (rule exI [of _ b]) simp
next
  case (Cons key pre)
  from Cons.prems obtain v where v: "c key = Some v" and "ok (pack_field key v)"
    by (auto simp: field_packs_def split: option.splits)
  then obtain bs where bs: "pack_field key v = Returned bs"
    by (auto dest: ok_Returned)
  from Cons.prems have "list_all (field_packs c) pre" by simp
  from Cons.IH [OF this, of "b @ bs"] obtain b' where
    "add_coefficients c (pre @ ks) (b @ bs) = add_coefficients c ks b'" by blast
  with v bs have "add_coefficients c ((key # pre) @ ks) b = add_coefficients c ks b'"
    by (simp add: add_field_pack)
  then show ?case by (rule exI)
qed

lemma first_failing:
  "\<not> list_all P xs \<Longrightarrow> \<exists>pre k post. xs = pre @ k # post \<and> list_all P pre \<and> \<not> P k"
proof -
  assume "\<not> list_all P xs"
  then have "\<exists>x \<in> set xs. \<not> P x" by (simp add: list_all_iff)
  from split_list_first_prop [OF this] show ?thesis
    by (auto simp: list_all_iff)
qed

lemma encodable_field_packs: "encodable c \<longleftrightarrow> list_all (field_packs c) cap_coefficient_keys"
proof -
  have "field_packs c = (\<lambda>key. case c key of
                       None \<Rightarrow> False
                     | Some v \<Rightarrow> ok (if key = ''KC'' then struct_pack_H v else struct_pack_f v))"
    by (rule ext) (simp add: field_packs_def pack_field_def split: option.split)
  then show ?thesis by (simp add: encodable_def)
qed

lemma missing_first:
  "list_all (field_packs c) pre \<Longrightarrow> c k = None \<Longrightarrow>
     add_coefficients c (pre @ k # post) b = Raised (KeyError k)"
  using add_coefficients_prefix [of c pre "k # post" b] by auto

lemma unpackable_first:
  "list_all (field_packs c) pre \<Longrightarrow> c k = Some v \<Longrightarrow> pack_field k v = Raised e \<Longrightarrow>
     add_coefficients c (pre @ k # post) b = Raised e"
  using add_coefficients_prefix [of c pre "k # post" b] by (auto simp: add_field_pack)

text \<open>
  C4, amended. \<^verbatim>\<open>set_odo_cap_coefficients\<close> looks the nine declared fields up in order,
  packing each value as it goes, and looks at nothing else. The first declared field that
  is missing or whose value does not pack decides the failure: \<^verbatim>\<open>KeyError\<close> of that field
  when it is missing, the error of the packing when its value does not pack; in both
  cases no transport call is made and the session is as it was. Every mapping that lacks a
  declared field fails so. Fields beyond the nine are ignored: mappings that agree on the
  declared fields behave alike, and every mapping whose declared fields are present with
  values that pack proceeds to the single block write of 17 registers at 0x0100.
\<close>

theorem cap_coefficients_field_set:
  "(cap_coefficient_keys = pre @ k # post \<and> list_all (field_packs m) pre \<and> m k = None \<longrightarrow>
      set_odo_cap_coefficients s m r = (s, Raised (KeyError k)))
   \<and> (cap_coefficient_keys = pre' @ k' # post' \<and> list_all (field_packs m') pre' \<and>
        m' k' = Some v \<and> pack_field k' v = Raised e \<longrightarrow>
      set_odo_cap_coefficients s m' r = (s, Raised e))
   \<and> (k0 \<in> set cap_coefficient_keys \<and> d k0 = None \<longrightarrow> \<not> encodable d)
   \<and> (\<not> encodable d \<longrightarrow>
        (\<exists>pre k post. cap_coefficient_keys = pre @ k # post \<and> list_all (field_packs d) pre \<and>
           \<not> field_packs d k)
        \<and> (\<exists>x. set_odo_cap_coefficients s d r = (s, Raised x)))
   \<and> (encodable c \<longrightarrow>
        (\<exists>ws. issued s (fst (set_odo_cap_coefficients s c r)) =
                 [WriteRegisters 0x0100 ws (unit_id s)] \<and> length ws = 17)
        \<and> snd (set_odo_cap_coefficients s c r) =
             except_Exception (ignoring r (PyBool True)) (PyBool False))
   \<and> ((\<forall>key \<in> set cap_coefficient_keys. c' key = c key) \<longrightarrow>
        set_odo_cap_coefficients s c' r = set_odo_cap_coefficients s c r)"
proof (intro conjI impI)
  assume "cap_coefficient_keys = pre @ k # post \<and> list_all (field_packs m) pre \<and> m k = None"
  then show "set_odo_cap_coefficients s m r = (s, Raised (KeyError k))"
    using missing_first [of m pre k post "[]"]
    by (simp add: set_odo_cap_coefficients_def write_payload_def)
next
  assume "cap_coefficient_keys = pre' @ k' # post' \<and> list_all (field_packs m') pre' \<and>
        m' k' = Some v \<and> pack_field k' v = Raised e"
  then show "set_odo_cap_coefficients s m' r = (s, Raised e)"
    using unpackable_first [of m' pre' k' v e post' "[]"]
    by (simp add: set_odo_cap_coefficients_def write_payload_def)
next
  assume "k0 \<in> set cap_coefficient_keys \<and> d k0 = None"
  then have "\<not> field_packs d k0" and "k0 \<in> set cap_coefficient_keys"
    by (simp_all add: field_packs_def)
  then show "\<not> encodable d"
    by (auto simp: encodable_field_packs list_all_iff)
next
  assume n: "\<not> encodable d"
  then have "\<not> list_all (field_packs d) cap_coefficient_keys"
    by (simp add: encodable_field_packs)
  from first_failing [OF this]
  show "\<exists>pre k post. cap_coefficient_keys = pre @ k # post \<and> list_all (field_packs d) pre \<and>
           \<not> field_packs d k" .
  from n have "\<not> ok (add_coefficients d cap_coefficient_keys [])"
    by (simp add: encodable_def add_coefficients_ok)
  then obtain x where "add_coefficients d cap_coefficient_keys [] = Raised x"
    by (cases "add_coefficients d cap_coefficient_keys []") simp_all
  then show "\<exists>x. set_odo_cap_coefficients s d r = (s, Raised x)"
    by (simp add: set_odo_cap_coefficients_def write_payload_def)
next
  assume "encodable c"
  from cap_payload [OF this] obtain bs where
    bs: "add_coefficients c cap_coefficient_keys [] = Returned bs" "length bs = 2 * 17" by blast
  from write_payload_once [OF this]
  show "\<exists>ws. issued s (fst (set_odo_cap_coefficients s c r)) =
                 [WriteRegisters 0x0100 ws (unit_id s)] \<and> length ws = 17"
    by (simp add: set_odo_cap_coefficients_def)
  from bs show "snd (set_odo_cap_coefficients s c r) =
             except_Exception (ignoring r (PyBool True)) (PyBool False)"
    by (simp add: set_odo_cap_coefficients_def write_payload_def)
next
  assume "\<forall>key \<in> set cap_coefficient_keys. c' key = c key"
  from add_coefficients_cong [OF this, of "[]"]
  show "set_odo_cap_coefficients s c' r = set_odo_cap_coefficients s c r"
    by (simp add: set_odo_cap_coefficients_def)
qed

lemma floorlog_replacement_time: "floorlog 2 (1610000000::nat) = 31"
proof -
  have "floorlog 2 (1610000000::nat) \<le> 31" by (simp add: floorlog_le_iff)
  moreover have "Suc 30 \<le> floorlog 2 (1610000000::nat)" by (rule floorlog_ge_SucI) simp_all
  ultimately show ?thesis by simp
qed

lemma f32_of_replacement_time: "f32_of_int 1610000000 = Some 0x4EBFED4D"
  by (simp add: f32_of_int_def round_to_bits_def floorlog_replacement_time Let_def)

lemma new_coefficients_payload:
  "add_coefficients (new_coefficients(''K8'' \<mapsto> x)) cap_coefficient_keys [] =
     Returned (pack_I 0x3F800000 @ pack_I 0 @ pack_I 0xBDCCCCCD @ pack_I 0x3C23D70A @
       pack_I 0xBA83126F @ pack_I 0x38D1B717 @ pack_I 0xB727C5AC @ pack_H 1 @ pack_I 0x4EBFED4D)"
  by (simp add: new_coefficients_def cap_coefficient_keys_def add_16bit_uint_def
      add_32bit_float_def struct_pack_H_def struct_pack_f_def f32_of_replacement_time
      quiet_nan_def is_nan_def)

text \<open>
  C4, as stated, fails: the mapping of the docstring with one more field, \<^verbatim>\<open>K8\<close>, is not
  rejected. The operation writes the 17 registers and returns True.
\<close>

theorem extra_field_accepted:
  "(new_coefficients(''K8'' \<mapsto> PyFloat 0)) ''K8'' = Some (PyFloat 0)
   \<and> ''K8'' \<notin> set cap_coefficient_keys
   \<and> set_odo_cap_coefficients (init 1) (new_coefficients(''K8'' \<mapsto> PyFloat 0)) (Registers []) =
       (\<lparr>unit_id = 1, connected = False, link_open = False,
          calls = [WriteRegisters 0x0100
            [0x3F80, 0x0000, 0x0000, 0x0000, 0xBDCC, 0xCCCD, 0x3C23, 0xD70A, 0xBA83, 0x126F,
             0x38D1, 0xB717, 0xB727, 0xC5AC, 0x0001, 0x4EBF, 0xED4D] 1]\<rparr>,
        Returned (PyBool True))"
proof -
  have "''K8'' \<notin> set cap_coefficient_keys" by (simp add: cap_coefficient_keys_def)
  moreover have "set_odo_cap_coefficients (init 1) (new_coefficients(''K8'' \<mapsto> PyFloat 0)) (Registers []) =
       (\<lparr>unit_id = 1, connected = False, link_open = False,
          calls = [WriteRegisters 0x0100
            [0x3F80, 0x0000, 0x0000, 0x0000, 0xBDCC, 0xCCCD, 0x3C23, 0xD70A, 0xBA83, 0x126F,
             0x38D1, 0xB717, 0xB727, 0xC5AC, 0x0001, 0x4EBF, 0xED4D] 1]\<rparr>,
        Returned (PyBool True))"
    by (simp add: set_odo_cap_coefficients_def new_coefficients_payload write_payload_def
        ignoring_def init_def call_def pack_I_def pack_H_def)
  ultimately show ?thesis by simp
qed

lemma encodable_new_coefficients: "encodable new_coefficients"
  by (simp add: encodable_def cap_coefficient_keys_def new_coefficients_def struct_pack_H_def
      struct_pack_f_def f32_of_replacement_time)

theorem cap_coefficients_field_set_witness:
  "cap_coefficient_keys = [''K1'', ''K2'', ''K3'', ''K4'', ''K5'', ''K6'', ''K7''] @ ''KC'' # [''Cap Replacement Time'']
   \<and> list_all (field_packs (new_coefficients(''KC'' := None))) [''K1'', ''K2'', ''K3'', ''K4'', ''K5'', ''K6'', ''K7'']
   \<and> (new_coefficients(''KC'' := None)) ''KC'' = None
   \<and> set_odo_cap_coefficients (init 1) (new_coefficients(''KC'' := None)) (Registers []) = (init 1, Raised (KeyError ''KC''))
   \<and> cap_coefficient_keys = [''K1''] @ ''K2'' # [''K3'', ''K4'', ''K5'', ''K6'', ''K7'', ''KC'', ''Cap Replacement Time'']
   \<and> list_all (field_packs (new_coefficients(''K2'' \<mapsto> PyStr ''x'', ''KC'' := None))) [''K1'']
   \<and> (new_coefficients(''K2'' \<mapsto> PyStr ''x'', ''KC'' := None)) ''K2'' = Some (PyStr ''x'')
   \<and> pack_field ''K2'' (PyStr ''x'') = Raised StructError
   \<and> set_odo_cap_coefficients (init 1) (new_coefficients(''K2'' \<mapsto> PyStr ''x'', ''KC'' := None)) (Registers []) = (init 1, Raised StructError)
   \<and> \<not> encodable (new_coefficients(''K2'' \<mapsto> PyStr ''x'', ''KC'' := None))
   \<and> (\<exists>x. set_odo_cap_coefficients (init 1) (new_coefficients(''K2'' \<mapsto> PyStr ''x'', ''KC'' := None)) (Registers []) = (init 1, Raised x))
   \<and> encodable new_coefficients
   \<and> (\<exists>ws. issued (init 1) (fst (set_odo_cap_coefficients (init 1) new_coefficients (Registers []))) =
              [WriteRegisters 0x0100 ws 1] \<and> length ws = 17)
   \<and> set_odo_cap_coefficients (init 1) (new_coefficients(''K8'' \<mapsto> PyFloat 0)) (Registers []) =
       set_odo_cap_coefficients (init 1) new_coefficients (Registers [])"
proof -
  let ?m = "new_coefficients(''KC'' := None)" and ?m' = "new_coefficients(''K2'' \<mapsto> PyStr ''x'', ''KC'' := None)"
  have k: "cap_coefficient_keys = [''K1'', ''K2'', ''K3'', ''K4'', ''K5'', ''K6'', ''K7''] @ ''KC'' # [''Cap Replacement Time'']"
    "cap_coefficient_keys = [''K1''] @ ''K2'' # [''K3'', ''K4'', ''K5'', ''K6'', ''K7'', ''KC'', ''Cap Replacement Time'']"
    by (simp_all add: cap_coefficient_keys_def)
  have p: "list_all (field_packs ?m) [''K1'', ''K2'', ''K3'', ''K4'', ''K5'', ''K6'', ''K7'']"
    "list_all (field_packs ?m') [''K1'']"
    by (simp_all add: field_packs_def pack_field_def new_coefficients_def struct_pack_f_def)
  have v: "?m ''KC'' = None" "?m' ''K2'' = Some (PyStr ''x'')" "?m' ''KC'' = None"
    "pack_field ''K2'' (PyStr ''x'') = Raised StructError"
    by (simp_all add: pack_field_def struct_pack_f_def)
  have kc: "''KC'' \<in> set cap_coefficient_keys" by (simp add: cap_coefficient_keys_def)
  have h4: "\<forall>key \<in> set cap_coefficient_keys. (new_coefficients(''K8'' \<mapsto> PyFloat 0)) key = new_coefficients key"
    by (simp add: cap_coefficient_keys_def)
  have u: "unit_id (init 1) = 1" by (simp add: init_def)
  note T = cap_coefficients_field_set
    [where pre = "[''K1'', ''K2'', ''K3'', ''K4'', ''K5'', ''K6'', ''K7'']" and k = "''KC''" and post = "[''Cap Replacement Time'']" and m = "?m"
       and pre' = "[''K1'']" and k' = "''K2''" and post' = "[''K3'', ''K4'', ''K5'', ''K6'', ''K7'', ''KC'', ''Cap Replacement Time'']" and m' = "?m'"
       and v = "PyStr ''x''" and e = StructError and ?k0.0 = "''KC''" and d = "?m'"
       and c = new_coefficients and c' = "new_coefficients(''K8'' \<mapsto> PyFloat 0)"
       and s = "init 1" and r = "Registers []"]
  from T [THEN conjunct1, THEN mp] k(1) p(1) v(1)
  have a: "set_odo_cap_coefficients (init 1) ?m (Registers []) = (init 1, Raised (KeyError ''KC''))"
    by blast
  from T [THEN conjunct2, THEN conjunct1, THEN mp] k(2) p(2) v(2,4)
  have b: "set_odo_cap_coefficients (init 1) ?m' (Registers []) = (init 1, Raised StructError)"
    by blast
  from T [THEN conjunct2, THEN conjunct2, THEN conjunct1, THEN mp] kc v(3)
  have n: "\<not> encodable ?m'" by blast
  from T [THEN conjunct2, THEN conjunct2, THEN conjunct2, THEN conjunct1, THEN mp, OF n]
  have x: "\<exists>x. set_odo_cap_coefficients (init 1) ?m' (Registers []) = (init 1, Raised x)"
    by blast
  from T [THEN conjunct2, THEN conjunct2, THEN conjunct2, THEN conjunct2, THEN conjunct1, THEN mp,
      OF encodable_new_coefficients]
  have c: "\<exists>ws. issued (init 1) (fst (set_odo_cap_coefficients (init 1) new_coefficients (Registers []))) =
              [WriteRegisters 0x0100 ws 1] \<and> length ws = 17"
    unfolding u by blast
  from T [THEN conjunct2, THEN conjunct2, THEN conjunct2, THEN conjunct2, THEN conjunct2, THEN mp, OF h4]
  have d: "set_odo_cap_coefficients (init 1) (new_coefficients(''K8'' \<mapsto> PyFloat 0)) (Registers []) =
       set_odo_cap_coefficients (init 1) new_coefficients (Registers [])" .
  from k(1) p(1) v(1) a k(2) p(2) v(2) v(4) b n x encodable_new_coefficients c d
  show ?thesis by (intro conjI)
qed

lemma payload_lengths:
  assumes "ok (struct_pack_I t)" and "ok (struct_pack_f v)" and "ok (struct_pack_f w)"
  shows "\<exists>bs. add_32bit_uint [] t = Returned bs \<and> length bs = 2 * 2"
    and "\<exists>bs. add_32bit_float [] v = Returned bs \<and> length bs = 2 * 2"
    and "\<exists>bs. time_and_value t v = Returned bs \<and> length bs = 2 * 4"
    and "\<exists>bs. then_do (time_and_value t v) (\<lambda>b. add_32bit_float b w) = Returned bs
            \<and> length bs = 2 * 6"
proof -
  from assms obtain bt bv bw where
    p: "struct_pack_I t = Returned bt" "struct_pack_f v = Returned bv" "struct_pack_f w = Returned bw"
    by (auto dest!: ok_Returned)
  then have l: "length bt = 4" "length bv = 4" "length bw = 4"
    by (simp_all add: struct_pack_lengths)
  from p l show "\<exists>bs. add_32bit_uint [] t = Returned bs \<and> length bs = 2 * 2"
    and "\<exists>bs. add_32bit_float [] v = Returned bs \<and> length bs = 2 * 2"
    and "\<exists>bs. time_and_value t v = Returned bs \<and> length bs = 2 * 4"
    and "\<exists>bs. then_do (time_and_value t v) (\<lambda>b. add_32bit_float b w) = Returned bs
            \<and> length bs = 2 * 6"
    by (simp_all add: add_32bit_uint_def add_32bit_float_def time_and_value_def)
qed

lemma connect_then_write_once:
  "p = Returned bs \<Longrightarrow> length bs = 2 * n \<Longrightarrow>
     \<exists>ws. issued s (fst (connect_then_write s (ConnectReturns True) p a res)) =
            [Connect, WriteRegisters a ws (unit_id s)] \<and> length ws = n"
  by (simp add: connect_then_write_def connect_def write_payload_def issued_def call_def
      length_to_registers)

text \<open>
  C6. Every read operation issues exactly one block read, of the register kind, address
  and size of its layout, whatever the response is. Every block write whose arguments are
  encodable issues exactly one \<^verbatim>\<open>write_registers\<close> call of the size of its layout, the cap
  coefficients 17 registers at 0x0100; the two calibrations that connect first issue it
  after their \<^verbatim>\<open>connect()\<close>. The factory resets issue one single-register write.
\<close>

theorem one_transfer_per_layout:
  assumes "ok (struct_pack_I t)" and "ok (struct_pack_f v)" and "ok (struct_pack_f w)"
    and "encodable c"
  shows
    "issued s (fst (get_baud_rate_and_parity s r)) = [ReadHoldingRegisters 0x0001 1 (unit_id s)]
   \<and> issued s (fst (get_device_info s r)) = [ReadHoldingRegisters 0x1000 17 (unit_id s)]
   \<and> issued s (fst (get_data s r)) = [ReadInputRegisters 0x0000 24 (unit_id s)]
   \<and> issued s (fst (get_cap_serial s r)) = [ReadHoldingRegisters 0x0120 5 (unit_id s)]
   \<and> issued s (fst (get_odo_cap_coefficients s r)) = [ReadHoldingRegisters 0x0100 17 (unit_id s)]
   \<and> issued s (fst (get_odo_last_calibration_time_and_qc_score s r)) =
        [ReadHoldingRegisters 0x0210 3 (unit_id s)]
   \<and> issued s (fst (get_conductivity_last_calibration_time_and_qc_score s r)) =
        [ReadHoldingRegisters 0x0310 3 (unit_id s)]
   \<and> issued s (fst (get_user_tds_coefficient s r)) = [ReadHoldingRegisters 0x0500 2 (unit_id s)]
   \<and> issued s (fst (get_user_temperature_reference s r)) =
        [ReadHoldingRegisters 0x0502 2 (unit_id s)]
   \<and> issued s (fst (get_user_temperature_coefficient s r)) =
        [ReadHoldingRegisters 0x0504 2 (unit_id s)]
   \<and> issued s (fst (odo_factory_reset s r)) = [WriteRegister 0x0200 0x0001 (unit_id s)]
   \<and> issued s (fst (conductivity_factory_reset s r)) = [WriteRegister 0x0300 0x0001 (unit_id s)]
   \<and> (\<exists>ws. issued s (fst (perform_odo_zero_calibration s t r)) =
              [WriteRegisters 0x0220 ws (unit_id s)] \<and> length ws = 2)
   \<and> (\<exists>ws. issued s (fst (perform_odo_percent_saturation_calibration s t v r)) =
              [WriteRegisters 0x0230 ws (unit_id s)] \<and> length ws = 4)
   \<and> (\<exists>ws. issued s (fst (perform_odo_mgL_calibration s t v w r)) =
              [WriteRegisters 0x0240 ws (unit_id s)] \<and> length ws = 6)
   \<and> (\<exists>ws. issued s (fst (set_odo_cap_coefficients s c r)) =
              [WriteRegisters 0x0100 ws (unit_id s)] \<and> length ws = 17)
   \<and> (\<exists>ws. issued s (fst (perform_us_cm_calibration s t v r)) =
              [WriteRegisters 0x0320 ws (unit_id s)] \<and> length ws = 4)
   \<and> (\<exists>ws. issued s (fst (perform_salinity_ppt_calibration s t v r)) =
              [WriteRegisters 0x0330 ws (unit_id s)] \<and> length ws = 4)
   \<and> (\<exists>ws. issued s (fst (perform_specific_conductance_calibration s t v (ConnectReturns True) r)) =
              [Connect, WriteRegisters 0x0340 ws (unit_id s)] \<and> length ws = 4)
   \<and> (\<exists>ws. issued s (fst (perform_nlf_conductivity_calibration s t v (ConnectReturns True) r)) =
              [Connect, WriteRegisters 0x0350 ws (unit_id s)] \<and> length ws = 4)
   \<and> (\<exists>ws. issued s (fst (set_user_tds_coefficient s v r)) =
              [WriteRegisters 0x0500 ws (unit_id s)] \<and> length ws = 2)
   \<and> (\<exists>ws. issued s (fst (set_user_temperature_reference s v r)) =
              [WriteRegisters 0x0502 ws (unit_id s)] \<and> length ws = 2)
   \<and> (\<exists>ws. issued s (fst (set_user_temperature_coefficient s v r)) =
              [WriteRegisters 0x0504 ws (unit_id s)] \<and> length ws = 2)"
proof -
  note p = payload_lengths [OF assms(1,2,3)]
  have reads:
    "issued s (fst (get_baud_rate_and_parity s r)) = [ReadHoldingRegisters 0x0001 1 (unit_id s)]"
    "issued s (fst (get_device_info s r)) = [ReadHoldingRegisters 0x1000 17 (unit_id s)]"
    "issued s (fst (get_data s r)) = [ReadInputRegisters 0x0000 24 (unit_id s)]"
    "issued s (fst (get_cap_serial s r)) = [ReadHoldingRegisters 0x0120 5 (unit_id s)]"
    "issued s (fst (get_odo_cap_coefficients s r)) = [ReadHoldingRegisters 0x0100 17 (unit_id s)]"
    "issued s (fst (get_odo_last_calibration_time_and_qc_score s r)) =
        [ReadHoldingRegisters 0x0210 3 (unit_id s)]"
    "issued s (fst (get_conductivity_last_calibration_time_and_qc_score s r)) =
        [ReadHoldingRegisters 0x0310 3 (unit_id s)]"
    "issued s (fst (get_user_tds_coefficient s r)) = [ReadHoldingRegisters 0x0500 2 (unit_id s)]"
    "issued s (fst (get_user_temperature_reference s r)) =
        [ReadHoldingRegisters 0x0502 2 (unit_id s)]"
    "issued s (fst (get_user_temperature_coefficient s r)) =
        [ReadHoldingRegisters 0x0504 2 (unit_id s)]"
    "issued s (fst (odo_factory_reset s r)) = [WriteRegister 0x0200 0x0001 (unit_id s)]"
    "issued s (fst (conductivity_factory_reset s r)) = [WriteRegister 0x0300 0x0001 (unit_id s)]"
    by (simp_all add: operation_defs issued_call)
  from p(1) obtain b1 where b1: "add_32bit_uint [] t = Returned b1" "length b1 = 2 * 2" by blast
  from p(2) obtain b2 where b2: "add_32bit_float [] v = Returned b2" "length b2 = 2 * 2" by blast
  from p(3) obtain b3 where b3: "time_and_value t v = Returned b3" "length b3 = 2 * 4" by blast
  from p(4) obtain b4 where
    b4: "then_do (time_and_value t v) (\<lambda>b. add_32bit_float b w) = Returned b4" "length b4 = 2 * 6"
    by blast
  from cap_payload [OF assms(4)] obtain b5 where
    b5: "add_coefficients c cap_coefficient_keys [] = Returned b5" "length b5 = 2 * 17" by blast
  have w1: "\<exists>ws. issued s (fst (perform_odo_zero_calibration s t r)) =
              [WriteRegisters 0x0220 ws (unit_id s)] \<and> length ws = 2"
    using write_payload_once [OF b1] by (simp add: perform_odo_zero_calibration_def)
  have w2: "\<exists>ws. issued s (fst (perform_odo_percent_saturation_calibration s t v r)) =
              [WriteRegisters 0x0230 ws (unit_id s)] \<and> length ws = 4"
    using write_payload_once [OF b3] by (simp add: perform_odo_percent_saturation_calibration_def)
  have w3: "\<exists>ws. issued s (fst (perform_odo_mgL_calibration s t v w r)) =
              [WriteRegisters 0x0240 ws (unit_id s)] \<and> length ws = 6"
    using write_payload_once [OF b4] by (simp add: perform_odo_mgL_calibration_def)
  have w4: "\<exists>ws. issued s (fst (set_odo_cap_coefficients s c r)) =
              [WriteRegisters 0x0100 ws (unit_id s)] \<and> length ws = 17"
    using write_payload_once [OF b5] by (simp add: set_odo_cap_coefficients_def)
  have w5: "\<exists>ws. issued s (fst (perform_us_cm_calibration s t v r)) =
              [WriteRegisters 0x0320 ws (unit_id s)] \<and> length ws = 4"
    "\<exists>ws. issued s (fst (perform_salinity_ppt_calibration s t v r)) =
              [WriteRegisters 0x0330 ws (unit_id s)] \<and> length ws = 4"
    using write_payload_once [OF b3]
    by (simp_all add: perform_us_cm_calibration_def perform_salinity_ppt_calibration_def)
  have w6: "\<exists>ws. issued s (fst (perform_specific_conductance_calibration s t v (ConnectReturns True) r)) =
              [Connect, WriteRegisters 0x0340 ws (unit_id s)] \<and> length ws = 4"
    "\<exists>ws. issued s (fst (perform_nlf_conductivity_calibration s t v (ConnectReturns True) r)) =
              [Connect, WriteRegisters 0x0350 ws (unit_id s)] \<and> length ws = 4"
    using connect_then_write_once [OF b3]
    by (simp_all add: perform_specific_conductance_calibration_def
        perform_nlf_conductivity_calibration_def)
  have w7: "\<exists>ws. issued s (fst (set_user_tds_coefficient s v r)) =
              [WriteRegisters 0x0500 ws (unit_id s)] \<and> length ws = 2"
    "\<exists>ws. issued s (fst (set_user_temperature_reference s v r)) =
              [WriteRegisters 0x0502 ws (unit_id s)] \<and> length ws = 2"
    "\<exists>ws. issued s (fst (set_user_temperature_coefficient s v r)) =
              [WriteRegisters 0x0504 ws (unit_id s)] \<and> length ws = 2"
    using write_payload_once [OF b2]
    by (simp_all add: set_user_tds_coefficient_def set_user_temperature_reference_def
        set_user_temperature_coefficient_def)
  from reads w1 w2 w3 w4 w5 w6 w7 show ?thesis by (intro conjI)
qed

theorem one_transfer_per_layout_witness:
  "ok (struct_pack_I (PyInt 1610000000)) \<and> ok (struct_pack_f (PyFloat 0x443E0000))
   \<and> ok (struct_pack_f (PyFloat 0x3F000000)) \<and> encodable new_coefficients
   \<and> issued (init 1) (fst (get_data (init 1) ErrorResponse)) = [ReadInputRegisters 0 24 1]
   \<and> issued (init 1) (fst (get_device_info (init 1) ErrorResponse)) = [ReadHoldingRegisters 0x1000 17 1]
   \<and> (\<exists>ws. issued (init 1) (fst (set_odo_cap_coefficients (init 1) new_coefficients ErrorResponse)) =
              [WriteRegisters 0x0100 ws 1] \<and> length ws = 17)
   \<and> (\<exists>ws. issued (init 1) (fst (perform_odo_mgL_calibration (init 1) (PyInt 1610000000)
               (PyFloat 0x443E0000) (PyFloat 0x3F000000) ErrorResponse)) =
              [WriteRegisters 0x0240 ws 1] \<and> length ws = 6)"
proof -
  have h: "ok (struct_pack_I (PyInt 1610000000))" "ok (struct_pack_f (PyFloat 0x443E0000))"
    "ok (struct_pack_f (PyFloat 0x3F000000))"
    by (simp_all add: struct_pack_I_def struct_pack_f_def)
  have u: "unit_id (init 1) = 1" by (simp add: init_def)
  note T = one_transfer_per_layout [OF h encodable_new_coefficients, of "init 1" ErrorResponse]
  from T have a: "issued (init 1) (fst (get_data (init 1) ErrorResponse)) =
      [ReadInputRegisters 0x0000 24 (unit_id (init 1))]"
    by (elim conjE)
  from T have b: "issued (init 1) (fst (get_device_info (init 1) ErrorResponse)) =
      [ReadHoldingRegisters 0x1000 17 (unit_id (init 1))]"
    by (elim conjE)
  from T have c: "\<exists>ws. issued (init 1) (fst (set_odo_cap_coefficients (init 1) new_coefficients ErrorResponse)) =
              [WriteRegisters 0x0100 ws (unit_id (init 1))] \<and> length ws = 17"
    by (elim conjE)
  from T have d: "\<exists>ws. issued (init 1) (fst (perform_odo_mgL_calibration (init 1) (PyInt 1610000000)
               (PyFloat 0x443E0000) (PyFloat 0x3F000000) ErrorResponse)) =
              [WriteRegisters 0x0240 ws (unit_id (init 1))] \<and> length ws = 6"
    by (elim conjE)
  from a b c d h encodable_new_coefficients show ?thesis
    unfolding u by (intro conjI)
qed

end
